theory Spec2Isabelle
  imports Complex_Main
begin

section \<open>The Ackermann steering controller\<close>

text \<open>
  A shallow embedding of \<^verbatim>\<open>src/ackermann_steering_controller.cpp\<close>.

  Conventions of the embedding.
  \<^item> A C++ \<^verbatim>\<open>double\<close> is a \<^typ>\<open>real\<close>: the formulas of the controller are read in exact
    arithmetic, without rounding, infinities or overflow. A double division by zero gives
    an infinity or a NaN where HOL gives 0: the statement on the command timeout, whose
    values would hinge on such quotients, assumes the divisors to be non-zero; the other
    statements equate the set points with the quotients of the source as they are written.
  \<^item> The two sensor reads of \<^verbatim>\<open>update\<close> are the only doubles the code tests with
    \<^verbatim>\<open>std::isnan\<close>; they have the type \<open>sensor_double\<close>, a real or \<open>NaN\<close>.
  \<^item> \<^verbatim>\<open>ros::Time\<close> and \<^verbatim>\<open>ros::Duration\<close> are reals, in seconds.
  \<^item> \<^verbatim>\<open>abs\<close> is the floating-point absolute value (the overload that \<^verbatim>\<open>cmath\<close> provides),
    \<^verbatim>\<open>atan\<close> is \<^const>\<open>arctan\<close>, \<^verbatim>\<open>pow(x, 2)\<close> is \<open>x\<^sup>2\<close>.
  \<^item> The member object of the class is a record that every member function takes and
    returns. A joint handle is the command last written to it with \<^verbatim>\<open>setCommand\<close>.
  \<^item> What the class uses and this source does not define is a parameter: the macro
    \<^verbatim>\<open>M_PI\<close> of \<^verbatim>\<open>math.h\<close> and the member functions of the \<^verbatim>\<open>Odometry\<close> object are the
    fields of a record \<open>platform\<close>.
  \<^item> Informational and debug log statements are left out; the two error reports of the
    command callback are kept, since the callback's contract mentions them.
\<close>

subsection \<open>Data\<close>

datatype sensor_double = NaN | Val real

fun isnan :: "sensor_double \<Rightarrow> bool" where
  "isnan NaN = True"
| "isnan (Val _) = False"

text \<open>The command structure handed from the subscriber to the control cycle.\<close>

record Commands =
  lin :: real
  ang :: real
  stamp :: real

text \<open>The fields of a speed limiter that \<^verbatim>\<open>init\<close> loads.\<close>

record SpeedLimiter =
  has_velocity_limits :: bool
  has_acceleration_limits :: bool
  has_jerk_limits :: bool
  min_velocity :: real
  max_velocity :: real
  min_acceleration :: real
  max_acceleration :: real
  min_jerk :: real
  max_jerk :: real

text \<open>
  What the controller takes from outside this source: the value of \<^verbatim>\<open>M_PI\<close> and the
  member functions of \<^verbatim>\<open>odometry_\<close>, each a transformer of the odometry object \<open>'o\<close>.
\<close>

record 'o platform =
  M_PI :: real
  Odometry_update :: "real \<Rightarrow> real \<Rightarrow> real \<Rightarrow> real \<Rightarrow> 'o \<Rightarrow> 'o"
  Odometry_updateOpenLoop :: "real \<Rightarrow> real \<Rightarrow> real \<Rightarrow> 'o \<Rightarrow> 'o"
  Odometry_init :: "real \<Rightarrow> 'o \<Rightarrow> 'o"
  Odometry_setWheelParams :: "real \<Rightarrow> real \<Rightarrow> 'o \<Rightarrow> 'o"
  Odometry_setVelocityRollingWindowSize :: "int \<Rightarrow> 'o \<Rightarrow> 'o"

text \<open>
  The members of \<^verbatim>\<open>AckermannSteeringController\<close> (without their trailing underscore).
  \<open>running\<close> is what \<^verbatim>\<open>isRunning()\<close> returns. \<open>command\<close> is the realtime buffer
  \<^verbatim>\<open>command_\<close>, a single slot holding the last command written. The seven joint fields
  hold the command last written to the handle. \<open>multi_pub_errors\<close> lists the times at which
  the throttled error of the command callback was printed, newest first, with
  \<open>throttle_last_hit\<close> the state of that throttle; \<open>not_running_errors\<close> counts the
  unthrottled error of the callback.
\<close>

record 'o controller =
  open_loop :: bool
  running :: bool
  command_struct :: Commands
  command :: Commands
  odometry :: 'o
  wheel_separation_h :: real
  wheel_separation_l :: real
  wheel_radius :: real
  wheel_separation_h_multiplier :: real
  wheel_radius_multiplier :: real
  steer_pos_multiplier :: real
  cmd_vel_timeout :: real
  allow_multiple_cmd_vel_publishers :: bool
  base_frame_id :: string
  odom_frame_id :: string
  enable_odom_tf :: bool
  publish_period :: real
  last_state_publish_time :: real
  last0_cmd :: Commands
  last1_cmd :: Commands
  limiter_lin :: SpeedLimiter
  limiter_ang :: SpeedLimiter
  right_rear_wheel_joint :: real
  left_rear_wheel_joint :: real
  right_front_wheel_joint :: real
  left_front_wheel_joint :: real
  front_steer_joint :: real
  left_front_steer_joint :: real
  right_front_steer_joint :: real
  throttle_last_hit :: "real option"
  multi_pub_errors :: "real list"
  not_running_errors :: nat

subsection \<open>The control cycle: \<^verbatim>\<open>update\<close>\<close>

text \<open>
  The odometry block of \<^verbatim>\<open>update\<close>. \<open>None\<close> is the \<^verbatim>\<open>return\<close> of the NaN guard, which
  leaves \<^verbatim>\<open>update\<close> as a whole. The source computes the gain before the guard and uses it
  only after it, in the call of \<^verbatim>\<open>odometry_.update\<close>.
\<close>

definition odometry_gain :: "real \<Rightarrow> real \<Rightarrow> real \<Rightarrow> real" where
  "odometry_gain m_pi l steer_pos =
     (let r = l * tan ((m_pi / 2) - steer_pos);
          r_right = \<bar>r - (l / 2)\<bar>
      in r_right / \<bar>r\<bar>)"

definition compute_odometry ::
  "'o platform \<Rightarrow> sensor_double \<Rightarrow> sensor_double \<Rightarrow> real \<Rightarrow> 'o controller \<Rightarrow> 'o controller option"
where
  "compute_odometry P wheel_pos steer_pos time s =
     (if open_loop s then
        Some (s\<lparr>odometry :=
          Odometry_updateOpenLoop P (lin (last0_cmd s)) (ang (last0_cmd s)) time (odometry s)\<rparr>)
      else
        (case (wheel_pos, steer_pos) of
           (Val wp, Val sp) \<Rightarrow>
             (let gain = odometry_gain (M_PI P) (wheel_separation_l s) sp;
                  sp' = sp * steer_pos_multiplier s
              in Some (s\<lparr>odometry := Odometry_update P wp sp' time gain (odometry s)\<rparr>))
         | _ \<Rightarrow> None))"

text \<open>
  The publishing block: only the bookkeeping of the publish time is state of the
  controller; the messages themselves are built from the getters of the odometry object
  and handed to the realtime publishers.
\<close>

definition publish_odometry :: "real \<Rightarrow> 'o controller \<Rightarrow> 'o controller" where
  "publish_odometry time s =
     (if last_state_publish_time s + publish_period s < time
      then s\<lparr>last_state_publish_time := last_state_publish_time s + publish_period s\<rparr>
      else s)"

text \<open>The command read from the realtime buffer, after the brake on a timed-out command.\<close>

definition curr_cmd_of :: "real \<Rightarrow> 'o controller \<Rightarrow> Commands" where
  "curr_cmd_of time s =
     (let curr_cmd = command s;
          dt = time - stamp curr_cmd
      in if dt > cmd_vel_timeout s then curr_cmd\<lparr>lin := 0, ang := 0\<rparr> else curr_cmd)"

text \<open>The local values of the block that sets the commands, named as in the source.\<close>

definition right_wheel_steer_angle :: "real \<Rightarrow> real \<Rightarrow> real \<Rightarrow> real" where
  "right_wheel_steer_angle theta length' width =
     arctan ((2 * length' * sin theta) / (2 * length' * cos theta - width * sin theta))"

definition left_wheel_steer_angle :: "real \<Rightarrow> real \<Rightarrow> real \<Rightarrow> real" where
  "left_wheel_steer_angle theta length' width =
     arctan ((2 * length' * sin theta) / (2 * length' * cos theta + width * sin theta))"

definition turning_r :: "real \<Rightarrow> real \<Rightarrow> real \<Rightarrow> real" where
  "turning_r m_pi l theta = \<bar>l * tan ((m_pi / 2) - theta)\<bar>"

definition r_right_front_wheel :: "real \<Rightarrow> real \<Rightarrow> real \<Rightarrow> real" where
  "r_right_front_wheel r l h = sqrt ((r + (l / 2))\<^sup>2 + h\<^sup>2)"

definition r_left_front_wheel :: "real \<Rightarrow> real \<Rightarrow> real \<Rightarrow> real" where
  "r_left_front_wheel r l h = sqrt ((r - (l / 2))\<^sup>2 + h\<^sup>2)"

definition right_front_wheel_omega :: "real \<Rightarrow> real \<Rightarrow> real \<Rightarrow> real \<Rightarrow> real" where
  "right_front_wheel_omega r l h v = (r_right_front_wheel r l h / r) * v"

definition left_front_wheel_omega :: "real \<Rightarrow> real \<Rightarrow> real \<Rightarrow> real \<Rightarrow> real" where
  "left_front_wheel_omega r l h v = (r_left_front_wheel r l h / r) * v"

definition right_rear_wheel_omega :: "real \<Rightarrow> real \<Rightarrow> real \<Rightarrow> real" where
  "right_rear_wheel_omega r l v = ((r + (l / 2)) / r) * v"

definition left_rear_wheel_omega :: "real \<Rightarrow> real \<Rightarrow> real \<Rightarrow> real" where
  "left_rear_wheel_omega r l v = ((r - (l / 2)) / r) * v"

text \<open>
  The block \<^verbatim>\<open>MOVE ROBOT\<close>. The two calls of the speed limiters are comments in the
  source, so \<open>cmd_dt\<close>, the period in seconds, has no use and \<open>period\<close> no effect.
\<close>

definition move_robot :: "'o platform \<Rightarrow> real \<Rightarrow> real \<Rightarrow> 'o controller \<Rightarrow> 'o controller" where
  "move_robot P time period s =
     (let curr_cmd = curr_cmd_of time s;
          s1 = s\<lparr>last1_cmd := last0_cmd s, last0_cmd := curr_cmd\<rparr>;
          theta = ang curr_cmd;
          length' = wheel_separation_l s;
          width = wheel_separation_h s;
          s2 = s1\<lparr>left_front_steer_joint := right_wheel_steer_angle theta length' width,
                 right_front_steer_joint := left_wheel_steer_angle theta length' width,
                 front_steer_joint := ang curr_cmd\<rparr>;
          r = turning_r (M_PI P) (wheel_separation_l s) theta;
          rfo = right_front_wheel_omega r (wheel_separation_l s) (wheel_separation_h s) (lin curr_cmd);
          lfo = left_front_wheel_omega r (wheel_separation_l s) (wheel_separation_h s) (lin curr_cmd);
          rro = right_rear_wheel_omega r (wheel_separation_l s) (lin curr_cmd);
          lro = left_rear_wheel_omega r (wheel_separation_l s) (lin curr_cmd)
      in if theta > 0 then
           s2\<lparr>right_rear_wheel_joint := rro / wheel_radius s,
              left_rear_wheel_joint := lro / wheel_radius s,
              right_front_wheel_joint := rfo / wheel_radius s,
              left_front_wheel_joint := lfo / wheel_radius s\<rparr>
         else
           s2\<lparr>right_rear_wheel_joint := lro / wheel_radius s,
              left_rear_wheel_joint := rro / wheel_radius s,
              right_front_wheel_joint := lfo / wheel_radius s,
              left_front_wheel_joint := rfo / wheel_radius s\<rparr>)"

text \<open>
  \<^verbatim>\<open>update(time, period)\<close>; \<open>wheel_pos\<close> and \<open>steer_pos\<close> are what
  \<^verbatim>\<open>right_rear_wheel_joint_.getPosition()\<close> and \<^verbatim>\<open>front_steer_joint_.getPosition()\<close>
  return in this cycle.
\<close>

definition update ::
  "'o platform \<Rightarrow> sensor_double \<Rightarrow> sensor_double \<Rightarrow> real \<Rightarrow> real \<Rightarrow> 'o controller \<Rightarrow> 'o controller"
where
  "update P wheel_pos steer_pos time period s =
     (case compute_odometry P wheel_pos steer_pos time s of
        None \<Rightarrow> s
      | Some s' \<Rightarrow> move_robot P time period (publish_odometry time s'))"

text \<open>
  A cycle reaches the block \<^verbatim>\<open>MOVE ROBOT\<close> when its odometry block does not return:
  in open loop always, in closed loop when neither sensor value is NaN.
\<close>

definition reaches_move_robot :: "sensor_double \<Rightarrow> sensor_double \<Rightarrow> 'o controller \<Rightarrow> bool" where
  "reaches_move_robot wheel_pos steer_pos s \<longleftrightarrow>
     open_loop s \<or> (\<not> isnan wheel_pos \<and> \<not> isnan steer_pos)"

subsection \<open>Braking and the lifecycle\<close>

definition brake :: "'o controller \<Rightarrow> 'o controller" where
  "brake s =
     (let steer_pos = 0;
          wheel_vel = 0
      in s\<lparr>right_rear_wheel_joint := wheel_vel,
           left_rear_wheel_joint := wheel_vel,
           right_front_wheel_joint := wheel_vel,
           left_front_wheel_joint := wheel_vel,
           front_steer_joint := steer_pos,
           left_front_steer_joint := steer_pos,
           right_front_steer_joint := steer_pos\<rparr>)"

definition starting :: "'o platform \<Rightarrow> real \<Rightarrow> 'o controller \<Rightarrow> 'o controller" where
  "starting P time s =
     (let s1 = brake s;
          s2 = s1\<lparr>last_state_publish_time := time\<rparr>
      in s2\<lparr>odometry := Odometry_init P time (odometry s2)\<rparr>)"

definition stopping :: "real \<Rightarrow> 'o controller \<Rightarrow> 'o controller" where
  "stopping time s = brake s"

subsection \<open>The command callback\<close>

text \<open>The two fields of \<^verbatim>\<open>geometry_msgs::Twist\<close> that the callback reads.\<close>

record Twist =
  linear_x :: real
  angular_z :: real

text \<open>
  Modelled from the spec: the macro \<^verbatim>\<open>ROS_ERROR_STREAM_THROTTLE_NAMED\<close> is used by the
  callback and defined outside these sources. The spec has the violation "reported once
  per occurrence (rate-limited)": the report is printed when none was printed before or
  when at least \<open>period\<close> seconds have passed since the last one printed, and is dropped
  otherwise. \<open>now\<close> is the clock at the call.
\<close>

definition ROS_ERROR_STREAM_THROTTLE :: "real \<Rightarrow> real \<Rightarrow> 'o controller \<Rightarrow> 'o controller" where
  "ROS_ERROR_STREAM_THROTTLE period now s =
     (let printed = s\<lparr>throttle_last_hit := Some now, multi_pub_errors := now # multi_pub_errors s\<rparr>
      in case throttle_last_hit s of
           None \<Rightarrow> printed
         | Some last_hit \<Rightarrow> if last_hit + period \<le> now then printed else s)"

text \<open>
  \<^verbatim>\<open>cmdVelCallback(command)\<close>; \<open>now\<close> is \<^verbatim>\<open>ros::Time::now()\<close> and \<open>num_publishers\<close> is
  \<^verbatim>\<open>sub_command_.getNumPublishers()\<close> at the call.
\<close>

definition cmdVelCallback :: "real \<Rightarrow> nat \<Rightarrow> Twist \<Rightarrow> 'o controller \<Rightarrow> 'o controller" where
  "cmdVelCallback now num_publishers cmd s =
     (if running s then
        (if \<not> allow_multiple_cmd_vel_publishers s \<and> num_publishers > 1 then
           brake (ROS_ERROR_STREAM_THROTTLE 1.0 now s)
         else
           (let c = (command_struct s)\<lparr>ang := angular_z cmd, lin := linear_x cmd, stamp := now\<rparr>
            in s\<lparr>command_struct := c, command := c\<rparr>))
      else s\<lparr>not_running_errors := Suc (not_running_errors s)\<rparr>)"

subsection \<open>Construction and \<^verbatim>\<open>init\<close>\<close>

text \<open>
  The constructor. Its initialiser list leaves \<^verbatim>\<open>wheel_separation_l_\<close> out, so the value
  of that member before \<^verbatim>\<open>init\<close> is an argument, \<open>l0\<close>, as is the odometry object
  \<open>odo0\<close>. Members whose types have a default constructor start at zero.
\<close>

definition zero_cmd :: Commands where
  "zero_cmd = \<lparr>lin = 0, ang = 0, stamp = 0\<rparr>"

definition default_limiter :: SpeedLimiter where
  "default_limiter =
     \<lparr>has_velocity_limits = False, has_acceleration_limits = False, has_jerk_limits = False,
      min_velocity = 0, max_velocity = 0, min_acceleration = 0, max_acceleration = 0,
      min_jerk = 0, max_jerk = 0\<rparr>"

definition AckermannSteeringController :: "'o \<Rightarrow> real \<Rightarrow> 'o controller" where
  "AckermannSteeringController odo0 l0 =
     \<lparr>open_loop = False,
      running = False,
      command_struct = zero_cmd,
      command = zero_cmd,
      odometry = odo0,
      wheel_separation_h = 0.0,
      wheel_separation_l = l0,
      wheel_radius = 0.0,
      wheel_separation_h_multiplier = 1.0,
      wheel_radius_multiplier = 1.0,
      steer_pos_multiplier = 1.0,
      cmd_vel_timeout = 0.5,
      allow_multiple_cmd_vel_publishers = True,
      base_frame_id = ''base_link'',
      odom_frame_id = ''odom'',
      enable_odom_tf = True,
      publish_period = 0,
      last_state_publish_time = 0,
      last0_cmd = zero_cmd,
      last1_cmd = zero_cmd,
      limiter_lin = default_limiter,
      limiter_ang = default_limiter,
      right_rear_wheel_joint = 0,
      left_rear_wheel_joint = 0,
      right_front_wheel_joint = 0,
      left_front_wheel_joint = 0,
      front_steer_joint = 0,
      left_front_steer_joint = 0,
      right_front_steer_joint = 0,
      throttle_last_hit = None,
      multi_pub_errors = [],
      not_running_errors = 0\<rparr>"

text \<open>
  The parameter server behind a node handle: a map from keys to values.
  \<^verbatim>\<open>getParam\<close> gives a value of the asked type or fails; for a \<^verbatim>\<open>double\<close> an integer
  value is accepted as well. \<^verbatim>\<open>param(key, var, default)\<close> falls back to the default.
\<close>

datatype XmlRpcValue =
  TypeBoolean bool
| TypeInt int
| TypeDouble real
| TypeString string
| TypeArray "XmlRpcValue list"

type_synonym NodeHandle = "string \<Rightarrow> XmlRpcValue option"

definition getParam_double :: "NodeHandle \<Rightarrow> string \<Rightarrow> real option" where
  "getParam_double nh key =
     (case nh key of
        Some (TypeDouble d) \<Rightarrow> Some d
      | Some (TypeInt i) \<Rightarrow> Some (real_of_int i)
      | _ \<Rightarrow> None)"

definition getParam_bool :: "NodeHandle \<Rightarrow> string \<Rightarrow> bool option" where
  "getParam_bool nh key = (case nh key of Some (TypeBoolean b) \<Rightarrow> Some b | _ \<Rightarrow> None)"

definition getParam_int :: "NodeHandle \<Rightarrow> string \<Rightarrow> int option" where
  "getParam_int nh key = (case nh key of Some (TypeInt i) \<Rightarrow> Some i | _ \<Rightarrow> None)"

definition getParam_string :: "NodeHandle \<Rightarrow> string \<Rightarrow> string option" where
  "getParam_string nh key = (case nh key of Some (TypeString x) \<Rightarrow> Some x | _ \<Rightarrow> None)"

definition param_double :: "NodeHandle \<Rightarrow> string \<Rightarrow> real \<Rightarrow> real" where
  "param_double nh key dflt = (case getParam_double nh key of Some v \<Rightarrow> v | None \<Rightarrow> dflt)"

definition param_bool :: "NodeHandle \<Rightarrow> string \<Rightarrow> bool \<Rightarrow> bool" where
  "param_bool nh key dflt = (case getParam_bool nh key of Some v \<Rightarrow> v | None \<Rightarrow> dflt)"

definition param_int :: "NodeHandle \<Rightarrow> string \<Rightarrow> int \<Rightarrow> int" where
  "param_int nh key dflt = (case getParam_int nh key of Some v \<Rightarrow> v | None \<Rightarrow> dflt)"

definition param_string :: "NodeHandle \<Rightarrow> string \<Rightarrow> string \<Rightarrow> string" where
  "param_string nh key dflt = (case getParam_string nh key of Some v \<Rightarrow> v | None \<Rightarrow> dflt)"

text \<open>The joints registered with the velocity and the position interface of the robot.\<close>

record RobotHW =
  vel_joints :: "string list"
  pos_joints :: "string list"

record joint_names =
  right_rear_wheel_name :: string
  left_rear_wheel_name :: string
  right_front_wheel_name :: string
  left_front_wheel_name :: string
  front_steer_name :: string
  left_front_steer_name :: string
  right_front_steer_name :: string

text \<open>
  The seven joint names: \<^verbatim>\<open>init\<close> returns false at the first one that
  \<^verbatim>\<open>controller_nh.param\<close> does not find.
\<close>

definition load_joint_names :: "NodeHandle \<Rightarrow> joint_names option" where
  "load_joint_names nh =
     (case getParam_string nh ''right_rear_wheel'' of None \<Rightarrow> None | Some rrw \<Rightarrow>
     (case getParam_string nh ''left_rear_wheel'' of None \<Rightarrow> None | Some lrw \<Rightarrow>
     (case getParam_string nh ''right_front_wheel'' of None \<Rightarrow> None | Some rfw \<Rightarrow>
     (case getParam_string nh ''left_front_wheel'' of None \<Rightarrow> None | Some lfw \<Rightarrow>
     (case getParam_string nh ''front_steer'' of None \<Rightarrow> None | Some fs \<Rightarrow>
     (case getParam_string nh ''left_front_steer'' of None \<Rightarrow> None | Some lfs \<Rightarrow>
     (case getParam_string nh ''right_front_steer'' of None \<Rightarrow> None | Some rfs \<Rightarrow>
        Some \<lparr>right_rear_wheel_name = rrw, left_rear_wheel_name = lrw,
              right_front_wheel_name = rfw, left_front_wheel_name = lfw,
              front_steer_name = fs, left_front_steer_name = lfs,
              right_front_steer_name = rfs\<rparr>)))))))"

text \<open>
  The limits of one limiter, under the prefix \<open>pre\<close>. Each minimum defaults to the
  negated maximum, read after the maximum was loaded.
\<close>

definition load_limiter :: "NodeHandle \<Rightarrow> string \<Rightarrow> SpeedLimiter \<Rightarrow> SpeedLimiter" where
  "load_limiter nh pre l =
     (let l1 = l\<lparr>has_velocity_limits :=
                   param_bool nh (pre @ ''has_velocity_limits'') (has_velocity_limits l),
                 has_acceleration_limits :=
                   param_bool nh (pre @ ''has_acceleration_limits'') (has_acceleration_limits l),
                 has_jerk_limits :=
                   param_bool nh (pre @ ''has_jerk_limits'') (has_jerk_limits l)\<rparr>;
          l2 = l1\<lparr>max_velocity := param_double nh (pre @ ''max_velocity'') (max_velocity l1)\<rparr>;
          l3 = l2\<lparr>min_velocity := param_double nh (pre @ ''min_velocity'') (- max_velocity l2)\<rparr>;
          l4 = l3\<lparr>max_acceleration :=
                    param_double nh (pre @ ''max_acceleration'') (max_acceleration l3)\<rparr>;
          l5 = l4\<lparr>min_acceleration :=
                    param_double nh (pre @ ''min_acceleration'') (- max_acceleration l4)\<rparr>;
          l6 = l5\<lparr>max_jerk := param_double nh (pre @ ''max_jerk'') (max_jerk l5)\<rparr>
      in l6\<lparr>min_jerk := param_double nh (pre @ ''min_jerk'') (- max_jerk l6)\<rparr>)"

text \<open>The optional parameters, from the publish rate down to the two limiters.\<close>

definition load_params :: "'o platform \<Rightarrow> NodeHandle \<Rightarrow> 'o controller \<Rightarrow> 'o controller" where
  "load_params P nh s =
     (let publish_rate = param_double nh ''publish_rate'' 50.0;
          velocity_rolling_window_size = param_int nh ''velocity_rolling_window_size'' 10
      in s\<lparr>publish_period := 1.0 / publish_rate,
           open_loop := param_bool nh ''open_loop'' (open_loop s),
           wheel_separation_h_multiplier :=
             param_double nh ''wheel_separation_h_multiplier'' (wheel_separation_h_multiplier s),
           wheel_radius_multiplier :=
             param_double nh ''wheel_radius_multiplier'' (wheel_radius_multiplier s),
           steer_pos_multiplier :=
             param_double nh ''steer_pos_multiplier'' (steer_pos_multiplier s),
           odometry :=
             Odometry_setVelocityRollingWindowSize P velocity_rolling_window_size (odometry s),
           cmd_vel_timeout := param_double nh ''cmd_vel_timeout'' (cmd_vel_timeout s),
           allow_multiple_cmd_vel_publishers :=
             param_bool nh ''allow_multiple_cmd_vel_publishers''
               (allow_multiple_cmd_vel_publishers s),
           base_frame_id := param_string nh ''base_frame_id'' (base_frame_id s),
           odom_frame_id := param_string nh ''odom_frame_id'' (odom_frame_id s),
           enable_odom_tf := param_bool nh ''enable_odom_tf'' (enable_odom_tf s),
           limiter_lin := load_limiter nh ''linear/x/'' (limiter_lin s),
           limiter_ang := load_limiter nh ''angular/z/'' (limiter_ang s)\<rparr>)"

text \<open>
  The geometry: three \<^verbatim>\<open>getParam\<close> calls, the first two with the key
  \<^verbatim>\<open>"wheel_separation_h"\<close>, and \<^verbatim>\<open>return false\<close> when one of them fails; then the
  odometry object receives the multiplied track width and wheel radius.
\<close>

definition load_geometry :: "'o platform \<Rightarrow> NodeHandle \<Rightarrow> 'o controller \<Rightarrow> 'o controller option" where
  "load_geometry P nh s =
     (case (getParam_double nh ''wheel_separation_h'',
            getParam_double nh ''wheel_separation_h'',
            getParam_double nh ''wheel_radius'') of
        (Some h, Some l, Some r) \<Rightarrow>
          (let s1 = s\<lparr>wheel_separation_h := h, wheel_separation_l := l, wheel_radius := r\<rparr>;
               ws_h = wheel_separation_h_multiplier s1 * wheel_separation_h s1;
               wr = wheel_radius_multiplier s1 * wheel_radius s1
           in Some (s1\<lparr>odometry := Odometry_setWheelParams P ws_h wr (odometry s1)\<rparr>))
      | _ \<Rightarrow> None)"

text \<open>
  The assertions of \<^verbatim>\<open>setOdomPubFields\<close>: each covariance diagonal is an array of six
  doubles.
\<close>

fun is_TypeDouble :: "XmlRpcValue \<Rightarrow> bool" where
  "is_TypeDouble (TypeDouble _) = True"
| "is_TypeDouble _ = False"

definition covariance_ok :: "NodeHandle \<Rightarrow> string \<Rightarrow> bool" where
  "covariance_ok nh key =
     (case nh key of
        Some (TypeArray xs) \<Rightarrow> length xs = 6 \<and> list_all is_TypeDouble xs
      | _ \<Rightarrow> False)"

definition setOdomPubFields_asserts :: "NodeHandle \<Rightarrow> bool" where
  "setOdomPubFields_asserts nh \<longleftrightarrow>
     covariance_ok nh ''pose_covariance_diagonal'' \<and> covariance_ok nh ''twist_covariance_diagonal''"

text \<open>The seven calls of \<^verbatim>\<open>getHandle\<close>, each of which throws for an unknown joint.\<close>

definition handles_found :: "RobotHW \<Rightarrow> joint_names \<Rightarrow> bool" where
  "handles_found hw ns \<longleftrightarrow>
     right_rear_wheel_name ns \<in> set (vel_joints hw) \<and>
     left_rear_wheel_name ns \<in> set (vel_joints hw) \<and>
     left_front_wheel_name ns \<in> set (vel_joints hw) \<and>
     right_front_wheel_name ns \<in> set (vel_joints hw) \<and>
     front_steer_name ns \<in> set (pos_joints hw) \<and>
     left_front_steer_name ns \<in> set (pos_joints hw) \<and>
     right_front_steer_name ns \<in> set (pos_joints hw)"

datatype 'o init_result =
  ReturnFalse
| AssertionFailed
| HandleException
| ReturnTrue "'o controller"

definition init :: "'o platform \<Rightarrow> RobotHW \<Rightarrow> NodeHandle \<Rightarrow> 'o controller \<Rightarrow> 'o init_result" where
  "init P robot_hw controller_nh s =
     (case load_joint_names controller_nh of
        None \<Rightarrow> ReturnFalse
      | Some ns \<Rightarrow>
          (case load_geometry P controller_nh (load_params P controller_nh s) of
             None \<Rightarrow> ReturnFalse
           | Some s' \<Rightarrow>
               if \<not> setOdomPubFields_asserts controller_nh then AssertionFailed
               else if \<not> handles_found robot_hw ns then HandleException
               else ReturnTrue s'))"

subsection \<open>Runs of the controller\<close>

text \<open>
  The calls a controller receives after \<^verbatim>\<open>init\<close>, in any order. Starting and stopping
  go through the controller manager, which sets what \<^verbatim>\<open>isRunning()\<close> returns.
\<close>

datatype event =
  Update sensor_double sensor_double real real
| CmdVel real nat Twist
| Starting real
| Stopping real

fun step :: "'o platform \<Rightarrow> event \<Rightarrow> 'o controller \<Rightarrow> 'o controller" where
  "step P (Update wheel_pos steer_pos time period) s = update P wheel_pos steer_pos time period s"
| "step P (CmdVel now n cmd) s = cmdVelCallback now n cmd s"
| "step P (Starting time) s = (starting P time s)\<lparr>running := True\<rparr>"
| "step P (Stopping time) s = (stopping time s)\<lparr>running := False\<rparr>"

fun run :: "'o platform \<Rightarrow> event list \<Rightarrow> 'o controller \<Rightarrow> 'o controller" where
  "run P [] s = s"
| "run P (e # es) s = run P es (step P e s)"

subsection \<open>The speed limiter\<close>

text \<open>
  Modelled from the spec: \<^verbatim>\<open>SpeedLimiter::limit\<close>, whose two calls in \<^verbatim>\<open>update\<close> are
  comments and whose definition is not among these sources. The spec's contract is
  \<^verbatim>\<open>limit(desired, prev1, prev2, dt)\<close>: for \<open>dt \<le> 0\<close> the desired value comes back as it
  is; otherwise the jerk bound (from \<open>prev1\<close>, \<open>prev2\<close> and \<open>dt\<close>), the acceleration bound
  (from \<open>prev1\<close> and \<open>dt\<close>) and the velocity bound are applied in this order, each one only
  when it is enabled, each one clamping the candidate into its interval.
\<close>

definition clamp :: "real \<Rightarrow> real \<Rightarrow> real \<Rightarrow> real" where
  "clamp x lo hi = min (max x lo) hi"

definition limit_jerk :: "SpeedLimiter \<Rightarrow> real \<Rightarrow> real \<Rightarrow> real \<Rightarrow> real \<Rightarrow> real" where
  "limit_jerk l v v0 v1 dt =
     (if has_jerk_limits l then
        (let dv = v - v0;
             dv0 = v0 - v1;
             dt2 = 2 * dt * dt;
             da = clamp (dv - dv0) (min_jerk l * dt2) (max_jerk l * dt2)
         in v0 + dv0 + da)
      else v)"

definition limit_acceleration :: "SpeedLimiter \<Rightarrow> real \<Rightarrow> real \<Rightarrow> real \<Rightarrow> real" where
  "limit_acceleration l v v0 dt =
     (if has_acceleration_limits l then
        v0 + clamp (v - v0) (min_acceleration l * dt) (max_acceleration l * dt)
      else v)"

definition limit_velocity :: "SpeedLimiter \<Rightarrow> real \<Rightarrow> real" where
  "limit_velocity l v = (if has_velocity_limits l then clamp v (min_velocity l) (max_velocity l) else v)"

definition limit :: "SpeedLimiter \<Rightarrow> real \<Rightarrow> real \<Rightarrow> real \<Rightarrow> real \<Rightarrow> real" where
  "limit l desired prev1 prev2 dt =
     (if dt \<le> 0 then desired
      else limit_velocity l (limit_acceleration l (limit_jerk l desired prev1 prev2 dt) prev1 dt))"

text \<open>
  The command a cycle would hand to the kinematics if both limiters were applied to the
  command \<open>c\<close>, with the history of the state and the period of the cycle.
\<close>

definition limited_cmd :: "real \<Rightarrow> 'o controller \<Rightarrow> Commands \<Rightarrow> Commands" where
  "limited_cmd period s c =
     c\<lparr>lin := limit (limiter_lin s) (lin c) (lin (last0_cmd s)) (lin (last1_cmd s)) period,
       ang := limit (limiter_ang s) (ang c) (ang (last0_cmd s)) (ang (last1_cmd s)) period\<rparr>"

subsection \<open>Predicates of the statements\<close>

text \<open>
  The reports of the throttled error are spaced when each one is at least \<open>period\<close>
  seconds after the one before it (the list is newest first).
\<close>

fun spaced :: "real \<Rightarrow> real list \<Rightarrow> bool" where
  "spaced period (t1 # t2 # ts) \<longleftrightarrow> t2 + period \<le> t1 \<and> spaced period (t2 # ts)"
| "spaced period _ \<longleftrightarrow> True"

text \<open>The throttle remembers the newest report, and the reports are spaced by one second.\<close>

definition throttle_inv :: "'o controller \<Rightarrow> bool" where
  "throttle_inv s \<longleftrightarrow>
     spaced 1.0 (multi_pub_errors s) \<and>
     throttle_last_hit s = (case multi_pub_errors s of [] \<Rightarrow> None | t # _ \<Rightarrow> Some t)"

text \<open>All four wheel commands and all three steering commands are zero.\<close>

definition braked :: "'o controller \<Rightarrow> bool" where
  "braked s \<longleftrightarrow>
     right_rear_wheel_joint s = 0 \<and> left_rear_wheel_joint s = 0 \<and>
     right_front_wheel_joint s = 0 \<and> left_front_wheel_joint s = 0 \<and>
     front_steer_joint s = 0 \<and> left_front_steer_joint s = 0 \<and> right_front_steer_joint s = 0"

subsection \<open>A platform and controllers for concrete runs\<close>

text \<open>
  An odometry object that records the calls it receives, newest first, each one as the
  list of its arguments; \<open>m_pi\<close> is the value taken for \<^verbatim>\<open>M_PI\<close>.
\<close>

definition recording_platform :: "real \<Rightarrow> real list list platform" where
  "recording_platform m_pi =
     \<lparr>M_PI = m_pi,
      Odometry_update = (\<lambda>wheel_pos steer_pos time gain odo. [wheel_pos, steer_pos, time, gain] # odo),
      Odometry_updateOpenLoop = (\<lambda>linear angular time odo. [linear, angular, time] # odo),
      Odometry_init = (\<lambda>time odo. []),
      Odometry_setWheelParams = (\<lambda>ws wr odo. odo),
      Odometry_setVelocityRollingWindowSize = (\<lambda>n odo. odo)\<rparr>"

text \<open>
  A running closed-loop controller with wheelbase field \<open>l\<close>, track field \<open>h\<close>, wheel
  radius 1 and the command \<open>c\<close> in the realtime buffer.
\<close>

definition test_controller :: "real \<Rightarrow> real \<Rightarrow> Commands \<Rightarrow> real list list controller" where
  "test_controller l h c =
     (AckermannSteeringController [] l)
       \<lparr>running := True, wheel_separation_h := h, wheel_radius := 1, command := c\<rparr>"

text \<open>The same controller while it drives: every joint holds a non-zero command.\<close>

definition driving_controller :: "real \<Rightarrow> real \<Rightarrow> Commands \<Rightarrow> real list list controller" where
  "driving_controller l h c =
     (test_controller l h c)
       \<lparr>right_rear_wheel_joint := 2, left_rear_wheel_joint := 2,
        right_front_wheel_joint := 2, left_front_wheel_joint := 2,
        front_steer_joint := 1 / 4, left_front_steer_joint := 1 / 4,
        right_front_steer_joint := 1 / 4\<rparr>"

text \<open>
  A parameter server and a robot with which \<^verbatim>\<open>init\<close> succeeds. The server also
  holds a key \<^verbatim>\<open>wheel_separation_l\<close>, which \<^verbatim>\<open>init\<close> never asks for.
\<close>

definition test_params :: NodeHandle where
  "test_params =
     map_of
      [(''right_rear_wheel'', TypeString ''rrw''), (''left_rear_wheel'', TypeString ''lrw''),
       (''right_front_wheel'', TypeString ''rfw''), (''left_front_wheel'', TypeString ''lfw''),
       (''front_steer'', TypeString ''fs''), (''left_front_steer'', TypeString ''lfs''),
       (''right_front_steer'', TypeString ''rfs''),
       (''wheel_separation_h'', TypeDouble (1 / 2)), (''wheel_separation_l'', TypeDouble 2),
       (''wheel_radius'', TypeDouble (1 / 10)),
       (''pose_covariance_diagonal'', TypeArray (replicate 6 (TypeDouble (1 / 1000)))),
       (''twist_covariance_diagonal'', TypeArray (replicate 6 (TypeDouble (1 / 1000))))]"

definition test_robot :: RobotHW where
  "test_robot =
     \<lparr>vel_joints = [''rrw'', ''lrw'', ''rfw'', ''lfw''], pos_joints = [''fs'', ''lfs'', ''rfs'']\<rparr>"

text \<open>Two commands, stamped at time 0: steering angle \<open>\<pi>/4\<close> and \<open>-\<pi>/4\<close>, speed 1.\<close>

definition cmd_plus :: Commands where
  "cmd_plus = \<lparr>lin = 1, ang = pi / 4, stamp = 0\<rparr>"

definition cmd_minus :: Commands where
  "cmd_minus = \<lparr>lin = 1, ang = - (pi / 4), stamp = 0\<rparr>"

text \<open>A controller whose two limiters have velocity bounds below its command.\<close>

definition limited_controller :: "real list list controller" where
  "limited_controller =
     (test_controller 1 1 \<lparr>lin = 2, ang = 1, stamp = 0\<rparr>)
       \<lparr>limiter_lin :=
          default_limiter\<lparr>has_velocity_limits := True, min_velocity := - 1, max_velocity := 1\<rparr>,
        limiter_ang :=
          default_limiter\<lparr>has_velocity_limits := True, min_velocity := - (1 / 2),
            max_velocity := 1 / 2\<rparr>\<rparr>"

text \<open>A driving controller that allows one command publisher only.\<close>

definition policing_controller :: "real list list controller" where
  "policing_controller =
     (driving_controller 1 1 \<lparr>lin = 1, ang = 1 / 4, stamp = 5\<rparr>)
       \<lparr>allow_multiple_cmd_vel_publishers := False\<rparr>"

text \<open>
  The controller that \<^verbatim>\<open>init\<close> returns for the test parameters and the test robot
  (the geometry members hold the value \<open>1 / 2\<close> of the key \<^verbatim>\<open>wheel_separation_h\<close>, the
  wheel radius is \<open>1 / 10\<close>, the publish period \<open>1 / 50\<close>), two command messages, the
  state after the controller was started and received a message at time 0, and the state
  after one more cycle at time 0 with the first message.
\<close>

definition test_init_state :: "real list list controller" where
  "test_init_state =
     (AckermannSteeringController [] (1 / 2))
       \<lparr>publish_period := 1 / 50, wheel_separation_h := 1 / 2, wheel_radius := 1 / 10\<rparr>"

definition twist_plus :: Twist where
  "twist_plus = \<lparr>linear_x = 1, angular_z = pi / 4\<rparr>"

definition twist_minus :: Twist where
  "twist_minus = \<lparr>linear_x = 1, angular_z = - (pi / 4)\<rparr>"

definition commanded_state :: "Twist \<Rightarrow> real list list controller" where
  "commanded_state tw = run (recording_platform pi) [Starting 0, CmdVel 0 1 tw] test_init_state"

definition test_driving_state :: "real list list controller" where
  "test_driving_state =
     run (recording_platform pi) [Update (Val 0) (Val 0) 0 (1 / 100)] (commanded_state twist_plus)"

section \<open>Properties of the control cycle\<close>

subsection \<open>Auxiliary facts\<close>

lemmas test_defs =
  recording_platform_def test_controller_def driving_controller_def
  AckermannSteeringController_def zero_cmd_def default_limiter_def

text \<open>The command of a cycle depends on the buffer and the timeout only.\<close>

lemma curr_cmd_of_odometry [simp]:
  "curr_cmd_of time (s\<lparr>odometry := x\<rparr>) = curr_cmd_of time s"
  by (simp add: curr_cmd_of_def)

lemma curr_cmd_of_publish [simp]:
  "curr_cmd_of time (publish_odometry t s) = curr_cmd_of time s"
  by (simp add: curr_cmd_of_def publish_odometry_def)

lemma curr_cmd_of_limiters [simp]:
  "curr_cmd_of time (s\<lparr>limiter_lin := a\<rparr>) = curr_cmd_of time s"
  "curr_cmd_of time (s\<lparr>limiter_ang := b\<rparr>) = curr_cmd_of time s"
  by (simp_all add: curr_cmd_of_def)

lemma timeout_cmd:
  "time - stamp (command s) > cmd_vel_timeout s \<Longrightarrow>
   lin (curr_cmd_of time s) = 0 \<and> ang (curr_cmd_of time s) = 0"
  by (simp add: curr_cmd_of_def Let_def)

lemma publish_odometry_fields [simp]:
  "wheel_separation_l (publish_odometry t s) = wheel_separation_l s"
  "wheel_separation_h (publish_odometry t s) = wheel_separation_h s"
  "wheel_radius (publish_odometry t s) = wheel_radius s"
  "last0_cmd (publish_odometry t s) = last0_cmd s"
  "odometry (publish_odometry t s) = odometry s"
  "multi_pub_errors (publish_odometry t s) = multi_pub_errors s"
  "throttle_last_hit (publish_odometry t s) = throttle_last_hit s"
  by (simp_all add: publish_odometry_def)

text \<open>The odometry block either returns or changes the odometry object alone.\<close>

lemma compute_odometry_Some:
  "reaches_move_robot wheel_pos steer_pos s \<Longrightarrow>
   \<exists>x. compute_odometry P wheel_pos steer_pos time s = Some (s\<lparr>odometry := x\<rparr>)"
  by (cases wheel_pos; cases steer_pos)
     (auto simp: reaches_move_robot_def compute_odometry_def Let_def)

lemma compute_odometry_None:
  "\<not> open_loop s \<Longrightarrow> isnan wheel_pos \<or> isnan steer_pos \<Longrightarrow>
   compute_odometry P wheel_pos steer_pos time s = None"
  by (cases wheel_pos; cases steer_pos) (auto simp: compute_odometry_def)

lemma compute_odometry_is_odometry_update:
  "compute_odometry P wheel_pos steer_pos time s = Some s' \<Longrightarrow> \<exists>x. s' = s\<lparr>odometry := x\<rparr>"
  by (cases wheel_pos; cases steer_pos)
     (auto simp: compute_odometry_def Let_def split: if_splits)

lemma update_reaches:
  assumes "reaches_move_robot wheel_pos steer_pos s"
  obtains x where
    "update P wheel_pos steer_pos time period s =
       move_robot P time period (publish_odometry time (s\<lparr>odometry := x\<rparr>))"
  using compute_odometry_Some[OF assms, of P time] by (auto simp: update_def)

text \<open>What the motion block writes.\<close>

lemma move_robot_fields:
  "last0_cmd (move_robot P time period s) = curr_cmd_of time s"
  "last1_cmd (move_robot P time period s) = last0_cmd s"
  "front_steer_joint (move_robot P time period s) = ang (curr_cmd_of time s)"
  "left_front_steer_joint (move_robot P time period s) =
     right_wheel_steer_angle (ang (curr_cmd_of time s)) (wheel_separation_l s) (wheel_separation_h s)"
  "right_front_steer_joint (move_robot P time period s) =
     left_wheel_steer_angle (ang (curr_cmd_of time s)) (wheel_separation_l s) (wheel_separation_h s)"
  by (simp_all add: move_robot_def Let_def)

lemma move_robot_wheels_pos:
  assumes "ang (curr_cmd_of time s) > 0"
  shows "right_rear_wheel_joint (move_robot P time period s) =
           right_rear_wheel_omega (turning_r (M_PI P) (wheel_separation_l s) (ang (curr_cmd_of time s)))
             (wheel_separation_l s) (lin (curr_cmd_of time s)) / wheel_radius s"
    and "left_rear_wheel_joint (move_robot P time period s) =
           left_rear_wheel_omega (turning_r (M_PI P) (wheel_separation_l s) (ang (curr_cmd_of time s)))
             (wheel_separation_l s) (lin (curr_cmd_of time s)) / wheel_radius s"
    and "right_front_wheel_joint (move_robot P time period s) =
           right_front_wheel_omega (turning_r (M_PI P) (wheel_separation_l s) (ang (curr_cmd_of time s)))
             (wheel_separation_l s) (wheel_separation_h s) (lin (curr_cmd_of time s)) / wheel_radius s"
    and "left_front_wheel_joint (move_robot P time period s) =
           left_front_wheel_omega (turning_r (M_PI P) (wheel_separation_l s) (ang (curr_cmd_of time s)))
             (wheel_separation_l s) (wheel_separation_h s) (lin (curr_cmd_of time s)) / wheel_radius s"
  using assms by (simp_all add: move_robot_def Let_def)

lemma move_robot_wheels_nonpos:
  assumes "ang (curr_cmd_of time s) \<le> 0"
  shows "right_rear_wheel_joint (move_robot P time period s) =
           left_rear_wheel_omega (turning_r (M_PI P) (wheel_separation_l s) (ang (curr_cmd_of time s)))
             (wheel_separation_l s) (lin (curr_cmd_of time s)) / wheel_radius s"
    and "left_rear_wheel_joint (move_robot P time period s) =
           right_rear_wheel_omega (turning_r (M_PI P) (wheel_separation_l s) (ang (curr_cmd_of time s)))
             (wheel_separation_l s) (lin (curr_cmd_of time s)) / wheel_radius s"
    and "right_front_wheel_joint (move_robot P time period s) =
           left_front_wheel_omega (turning_r (M_PI P) (wheel_separation_l s) (ang (curr_cmd_of time s)))
             (wheel_separation_l s) (wheel_separation_h s) (lin (curr_cmd_of time s)) / wheel_radius s"
    and "left_front_wheel_joint (move_robot P time period s) =
           right_front_wheel_omega (turning_r (M_PI P) (wheel_separation_l s) (ang (curr_cmd_of time s)))
             (wheel_separation_l s) (wheel_separation_h s) (lin (curr_cmd_of time s)) / wheel_radius s"
  using assms by (simp_all add: move_robot_def Let_def)

lemma move_robot_unchanged [simp]:
  "odometry (move_robot P time period s) = odometry s"
  "wheel_separation_l (move_robot P time period s) = wheel_separation_l s"
  "wheel_separation_h (move_robot P time period s) = wheel_separation_h s"
  "multi_pub_errors (move_robot P time period s) = multi_pub_errors s"
  "throttle_last_hit (move_robot P time period s) = throttle_last_hit s"
  by (simp_all add: move_robot_def Let_def)

lemma move_robot_period: "move_robot P time period s = move_robot P time period' s"
  by (simp add: move_robot_def)

text \<open>The limiters of the state pass through a cycle untouched and unread.\<close>

lemma move_robot_limiter_lin:
  "move_robot P time period (s\<lparr>limiter_lin := a\<rparr>) =
     (move_robot P time period s)\<lparr>limiter_lin := a\<rparr>"
  unfolding move_robot_def Let_def by (cases "0 < ang (curr_cmd_of time s)") simp_all

lemma move_robot_limiter_ang:
  "move_robot P time period (s\<lparr>limiter_ang := a\<rparr>) =
     (move_robot P time period s)\<lparr>limiter_ang := a\<rparr>"
  unfolding move_robot_def Let_def by (cases "0 < ang (curr_cmd_of time s)") simp_all

lemma publish_odometry_limiters:
  "publish_odometry time (s\<lparr>limiter_lin := a\<rparr>) = (publish_odometry time s)\<lparr>limiter_lin := a\<rparr>"
  "publish_odometry time (s\<lparr>limiter_ang := b\<rparr>) = (publish_odometry time s)\<lparr>limiter_ang := b\<rparr>"
  by (simp_all add: publish_odometry_def)

lemma compute_odometry_limiters:
  "compute_odometry P wheel_pos steer_pos time (s\<lparr>limiter_lin := a\<rparr>) =
     map_option (\<lambda>s'. s'\<lparr>limiter_lin := a\<rparr>) (compute_odometry P wheel_pos steer_pos time s)"
  "compute_odometry P wheel_pos steer_pos time (s\<lparr>limiter_ang := b\<rparr>) =
     map_option (\<lambda>s'. s'\<lparr>limiter_ang := b\<rparr>) (compute_odometry P wheel_pos steer_pos time s)"
  by (cases wheel_pos; cases steer_pos; simp add: compute_odometry_def Let_def)+

lemma update_limiter_lin:
  "update P wheel_pos steer_pos time period (s\<lparr>limiter_lin := a\<rparr>) =
     (update P wheel_pos steer_pos time period s)\<lparr>limiter_lin := a\<rparr>"
  by (cases "compute_odometry P wheel_pos steer_pos time s")
     (simp_all add: update_def compute_odometry_limiters publish_odometry_limiters
        move_robot_limiter_lin)

lemma update_limiter_ang:
  "update P wheel_pos steer_pos time period (s\<lparr>limiter_ang := b\<rparr>) =
     (update P wheel_pos steer_pos time period s)\<lparr>limiter_ang := b\<rparr>"
  by (cases "compute_odometry P wheel_pos steer_pos time s")
     (simp_all add: update_def compute_odometry_limiters publish_odometry_limiters
        move_robot_limiter_ang)

lemma update_period:
  "update P wheel_pos steer_pos time period s = update P wheel_pos steer_pos time period' s"
  unfolding update_def using move_robot_period [of P time period _ period']
  by (cases "compute_odometry P wheel_pos steer_pos time s") simp_all

text \<open>Braking, the throttled report and the callback.\<close>

lemma brake_fields [simp]:
  "wheel_separation_l (brake s) = wheel_separation_l s"
  "wheel_separation_h (brake s) = wheel_separation_h s"
  "command (brake s) = command s"
  "command_struct (brake s) = command_struct s"
  "multi_pub_errors (brake s) = multi_pub_errors s"
  "throttle_last_hit (brake s) = throttle_last_hit s"
  "braked (brake s)"
  by (simp_all add: brake_def braked_def)

lemma throttle_fields [simp]:
  "wheel_separation_l (ROS_ERROR_STREAM_THROTTLE p now s) = wheel_separation_l s"
  "wheel_separation_h (ROS_ERROR_STREAM_THROTTLE p now s) = wheel_separation_h s"
  "command (ROS_ERROR_STREAM_THROTTLE p now s) = command s"
  "command_struct (ROS_ERROR_STREAM_THROTTLE p now s) = command_struct s"
  by (simp_all add: ROS_ERROR_STREAM_THROTTLE_def Let_def split: option.splits)

lemma throttle_reports:
  "multi_pub_errors (ROS_ERROR_STREAM_THROTTLE p now s) = multi_pub_errors s \<or>
   multi_pub_errors (ROS_ERROR_STREAM_THROTTLE p now s) = now # multi_pub_errors s"
  by (simp add: ROS_ERROR_STREAM_THROTTLE_def Let_def split: option.splits)

lemma throttle_inv_throttle:
  assumes "throttle_inv s"
  shows "throttle_inv (ROS_ERROR_STREAM_THROTTLE 1 now s)"
proof (cases "multi_pub_errors s")
  case Nil
  then show ?thesis
    using assms by (simp add: throttle_inv_def ROS_ERROR_STREAM_THROTTLE_def Let_def)
next
  case (Cons t ts)
  then show ?thesis
    using assms by (simp add: throttle_inv_def ROS_ERROR_STREAM_THROTTLE_def Let_def)
qed

lemma throttle_inv_cong:
  "multi_pub_errors s' = multi_pub_errors s \<Longrightarrow> throttle_last_hit s' = throttle_last_hit s \<Longrightarrow>
   throttle_inv s' = throttle_inv s"
  by (simp add: throttle_inv_def)

lemma throttle_inv_brake [simp]: "throttle_inv (brake s) = throttle_inv s"
  by (simp add: throttle_inv_def)

lemma throttle_inv_cmdVelCallback:
  "throttle_inv s \<Longrightarrow> throttle_inv (cmdVelCallback now n cmd s)"
  by (auto simp: cmdVelCallback_def Let_def throttle_inv_throttle
        intro: throttle_inv_cong [THEN iffD2])

text \<open>What no call after \<^verbatim>\<open>init\<close> changes: the geometry; and what every call keeps: the
  invariant of the throttle.\<close>

lemma update_unchanged [simp]:
  "wheel_separation_l (update P wheel_pos steer_pos time period s) = wheel_separation_l s"
  "wheel_separation_h (update P wheel_pos steer_pos time period s) = wheel_separation_h s"
  "multi_pub_errors (update P wheel_pos steer_pos time period s) = multi_pub_errors s"
  "throttle_last_hit (update P wheel_pos steer_pos time period s) = throttle_last_hit s"
  by (cases "compute_odometry P wheel_pos steer_pos time s";
      auto simp: update_def dest!: compute_odometry_is_odometry_update)+

lemma cmdVelCallback_geometry [simp]:
  "wheel_separation_l (cmdVelCallback now n cmd s) = wheel_separation_l s"
  "wheel_separation_h (cmdVelCallback now n cmd s) = wheel_separation_h s"
  by (simp_all add: cmdVelCallback_def Let_def)

lemma step_geometry [simp]:
  "wheel_separation_l (step P e s) = wheel_separation_l s"
  "wheel_separation_h (step P e s) = wheel_separation_h s"
  by (cases e; simp add: starting_def stopping_def Let_def)+

lemma run_geometry [simp]:
  "wheel_separation_l (run P es s) = wheel_separation_l s"
  "wheel_separation_h (run P es s) = wheel_separation_h s"
  by (induction es arbitrary: s; simp)+

lemma throttle_inv_step: "throttle_inv s \<Longrightarrow> throttle_inv (step P e s)"
proof (cases e)
  case (Update wp sp t p)
  assume "throttle_inv s"
  then show ?thesis
    using Update by (simp add: throttle_inv_cong [of "update P wp sp t p s" s])
next
  case (CmdVel now n cmd)
  assume "throttle_inv s"
  then show ?thesis using CmdVel by (simp add: throttle_inv_cmdVelCallback)
next
  case (Starting t)
  assume "throttle_inv s"
  then show ?thesis using Starting by (simp add: throttle_inv_def starting_def Let_def)
next
  case (Stopping t)
  assume "throttle_inv s"
  then show ?thesis using Stopping by (simp add: throttle_inv_def stopping_def)
qed

lemma throttle_inv_run: "throttle_inv s \<Longrightarrow> throttle_inv (run P es s)"
  by (induction es arbitrary: s) (simp_all add: throttle_inv_step)

lemma throttle_inv_constructed: "throttle_inv (AckermannSteeringController odo0 l0)"
  by (simp add: throttle_inv_def AckermannSteeringController_def)

text \<open>A successful \<^verbatim>\<open>init\<close> went through the three \<^verbatim>\<open>getParam\<close> calls of the geometry.\<close>

lemma init_ReturnTrue:
  assumes "init P robot_hw nh s0 = ReturnTrue s"
  shows "load_geometry P nh (load_params P nh s0) = Some s"
  using assms by (auto simp: init_def split: option.splits if_splits)

lemma load_geometry_Some:
  assumes "load_geometry P nh s0 = Some s"
  shows "getParam_double nh ''wheel_separation_h'' = Some (wheel_separation_h s)"
    and "wheel_separation_l s = wheel_separation_h s"
  using assms by (auto simp: load_geometry_def Let_def split: option.splits)

lemma throttle_inv_init:
  assumes "init P robot_hw nh s0 = ReturnTrue s" "throttle_inv s0"
  shows "throttle_inv s"
proof -
  have "load_geometry P nh (load_params P nh s0) = Some s"
    using assms(1) by (rule init_ReturnTrue)
  then have "multi_pub_errors s = multi_pub_errors s0 \<and> throttle_last_hit s = throttle_last_hit s0"
    by (auto simp: load_geometry_def load_params_def Let_def split: option.splits)
  then show ?thesis
    using assms(2) by (simp add: throttle_inv_def)
qed

text \<open>
  \<^verbatim>\<open>init\<close> succeeds on the test parameters, and its result has the value of the key
  \<^verbatim>\<open>wheel_separation_h\<close> in both geometry fields.
\<close>

lemma test_params_lookup:
  "getParam_double test_params ''wheel_separation_h'' = Some (1 / 2)"
  "getParam_double test_params ''wheel_separation_l'' = Some 2"
  "getParam_double test_params ''wheel_radius'' = Some (1 / 10)"
  by (simp_all add: getParam_double_def test_params_def)

lemma test_init_succeeds:
  "\<exists>s. init (recording_platform pi) test_robot test_params (AckermannSteeringController [] 7) =
          ReturnTrue s"
proof -
  have n: "load_joint_names test_params =
             Some \<lparr>right_rear_wheel_name = ''rrw'', left_rear_wheel_name = ''lrw'',
                   right_front_wheel_name = ''rfw'', left_front_wheel_name = ''lfw'',
                   front_steer_name = ''fs'', left_front_steer_name = ''lfs'',
                   right_front_steer_name = ''rfs''\<rparr>"
    by (simp add: load_joint_names_def getParam_string_def test_params_def)
  have g: "\<exists>s. load_geometry (recording_platform pi) test_params
                 (load_params (recording_platform pi) test_params
                    (AckermannSteeringController [] 7)) = Some s"
    by (simp add: load_geometry_def test_params_lookup Let_def)
  have a: "setOdomPubFields_asserts test_params"
    by (simp add: setOdomPubFields_asserts_def covariance_ok_def test_params_def list_all_iff)
  have h: "handles_found test_robot
             \<lparr>right_rear_wheel_name = ''rrw'', left_rear_wheel_name = ''lrw'',
              right_front_wheel_name = ''rfw'', left_front_wheel_name = ''lfw'',
              front_steer_name = ''fs'', left_front_steer_name = ''lfs'',
              right_front_steer_name = ''rfs''\<rparr>"
    by (simp add: handles_found_def test_robot_def)
  from g obtain s where
    "load_geometry (recording_platform pi) test_params
       (load_params (recording_platform pi) test_params (AckermannSteeringController [] 7)) = Some s"
    by blast
  then show ?thesis
    by (simp add: init_def n a h)
qed

text \<open>Two values of the tangent used in concrete runs.\<close>

lemma tan_half_pi_minus_quarter: "tan (pi / 2 - pi / 4) = 1"
proof -
  have "pi / 2 - pi / 4 = pi / 4" by simp
  then show ?thesis by (simp only: tan_45)
qed

lemma tan_half_pi_plus_quarter: "tan (pi / 2 - - (pi / 4)) = - 1"
proof -
  have "pi / 2 - - (pi / 4) = - (pi / 4) + pi" by simp
  then have "tan (pi / 2 - - (pi / 4)) = tan (- (pi / 4) + pi)" by (rule arg_cong)
  also have "\<dots> = tan (- (pi / 4))" by (rule tan_periodic_pi)
  also have "\<dots> = - 1" by (simp add: tan_45)
  finally show ?thesis .
qed

lemma curr_cmd_of_test:
  "curr_cmd_of 0 (test_controller l h cmd_plus) = cmd_plus"
  "curr_cmd_of 0 (test_controller l h cmd_minus) = cmd_minus"
  by (simp_all add: curr_cmd_of_def test_defs cmd_plus_def cmd_minus_def)

lemma test_controller_fields:
  "wheel_separation_l (test_controller l h c) = l"
  "wheel_separation_h (test_controller l h c) = h"
  "wheel_radius (test_controller l h c) = 1"
  "\<not> open_loop (test_controller l h c)"
  "M_PI (recording_platform m) = m"
  by (simp_all add: test_defs)

lemma reaches_with_values [simp]: "reaches_move_robot (Val a) (Val b) s"
  by (simp add: reaches_move_robot_def)

text \<open>The run from \<^verbatim>\<open>init\<close> on the test parameters, step by step.\<close>

lemma test_params_absent:
  "test_params ''publish_rate'' = None"
  "test_params ''open_loop'' = None"
  "test_params ''wheel_separation_h_multiplier'' = None"
  "test_params ''wheel_radius_multiplier'' = None"
  "test_params ''steer_pos_multiplier'' = None"
  "test_params ''velocity_rolling_window_size'' = None"
  "test_params ''cmd_vel_timeout'' = None"
  "test_params ''allow_multiple_cmd_vel_publishers'' = None"
  "test_params ''base_frame_id'' = None"
  "test_params ''odom_frame_id'' = None"
  "test_params ''enable_odom_tf'' = None"
  by (simp_all add: test_params_def)

lemma load_limiter_default:
  "load_limiter test_params ''linear/x/'' default_limiter = default_limiter"
  "load_limiter test_params ''angular/z/'' default_limiter = default_limiter"
  by (simp_all add: load_limiter_def Let_def param_bool_def param_double_def getParam_bool_def
        getParam_double_def test_params_def default_limiter_def)

lemma test_load_params:
  "load_params (recording_platform pi) test_params (AckermannSteeringController [] 7) =
     (AckermannSteeringController [] 7)\<lparr>publish_period := 1 / 50\<rparr>"
  by (simp add: load_params_def Let_def load_limiter_default test_params_absent
        param_bool_def param_double_def param_int_def param_string_def
        getParam_bool_def getParam_double_def getParam_int_def getParam_string_def
        recording_platform_def AckermannSteeringController_def)

lemma test_load_geometry:
  "load_geometry (recording_platform pi) test_params
     ((AckermannSteeringController [] 7)\<lparr>publish_period := 1 / 50\<rparr>) = Some test_init_state"
  by (simp add: load_geometry_def Let_def test_params_lookup test_init_state_def
        recording_platform_def AckermannSteeringController_def)

lemma test_init:
  "init (recording_platform pi) test_robot test_params (AckermannSteeringController [] 7) =
     ReturnTrue test_init_state"
proof -
  obtain s where i: "init (recording_platform pi) test_robot test_params
      (AckermannSteeringController [] 7) = ReturnTrue s"
    using test_init_succeeds by blast
  then have "load_geometry (recording_platform pi) test_params
      (load_params (recording_platform pi) test_params (AckermannSteeringController [] 7)) = Some s"
    by (rule init_ReturnTrue)
  then have "s = test_init_state"
    by (simp add: test_load_params test_load_geometry)
  with i show ?thesis by simp
qed

lemma commanded_state_fields:
  "curr_cmd_of 0 (commanded_state tw) = \<lparr>lin = linear_x tw, ang = angular_z tw, stamp = 0\<rparr>"
  "command (commanded_state tw) = \<lparr>lin = linear_x tw, ang = angular_z tw, stamp = 0\<rparr>"
  "cmd_vel_timeout (commanded_state tw) = 1 / 2"
  "wheel_separation_l (commanded_state tw) = 1 / 2"
  "wheel_separation_h (commanded_state tw) = 1 / 2"
  "wheel_radius (commanded_state tw) = 1 / 10"
  "\<not> open_loop (commanded_state tw)"
  by (simp_all add: commanded_state_def test_init_state_def starting_def brake_def
        cmdVelCallback_def curr_cmd_of_def Let_def recording_platform_def
        AckermannSteeringController_def zero_cmd_def)

lemma update_config_unchanged [simp]:
  "open_loop (update P wheel_pos steer_pos time period s) = open_loop s"
  "command (update P wheel_pos steer_pos time period s) = command s"
  "cmd_vel_timeout (update P wheel_pos steer_pos time period s) = cmd_vel_timeout s"
  "wheel_radius (update P wheel_pos steer_pos time period s) = wheel_radius s"
  by (cases "compute_odometry P wheel_pos steer_pos time s";
      auto simp: update_def move_robot_def publish_odometry_def Let_def
           dest!: compute_odometry_is_odometry_update)+

lemma tan_three_quarter_pi: "tan (3 * pi / 4) = - 1"
proof -
  have "3 * pi / 4 = pi / 2 - - (pi / 4)" by simp
  then show ?thesis by (simp only: tan_half_pi_plus_quarter)
qed

lemma twist_fields:
  "linear_x twist_plus = 1" "angular_z twist_plus = pi / 4"
  "linear_x twist_minus = 1" "angular_z twist_minus = - (pi / 4)"
  by (simp_all add: twist_plus_def twist_minus_def)

lemma test_driving_state_fields:
  "\<not> open_loop test_driving_state"
  "command test_driving_state = \<lparr>lin = 1, ang = pi / 4, stamp = 0\<rparr>"
  "cmd_vel_timeout test_driving_state = 1 / 2"
  "right_rear_wheel_joint test_driving_state = 15"
  "left_rear_wheel_joint test_driving_state = 5"
  "right_front_wheel_joint test_driving_state = 5 * sqrt 13"
  "left_front_wheel_joint test_driving_state = 5 * sqrt 5"
  "last0_cmd test_driving_state = \<lparr>lin = 1, ang = pi / 4, stamp = 0\<rparr>"
proof -
  let ?P = "recording_platform pi"
  let ?s = "commanded_state twist_plus"
  have d: "test_driving_state = update ?P (Val 0) (Val 0) 0 (1 / 100) ?s"
    by (simp add: test_driving_state_def)
  obtain x where u: "update ?P (Val 0) (Val 0) 0 (1 / 100) ?s =
      move_robot ?P 0 (1 / 100) (publish_odometry 0 (?s\<lparr>odometry := x\<rparr>))"
    using reaches_with_values by (rule update_reaches)
  have s13: "sqrt (13 / 16) = sqrt 13 / 4" and s5: "sqrt (5 / 16) = sqrt 5 / 4"
    by (simp_all add: real_sqrt_divide)
  show "\<not> open_loop test_driving_state"
    "command test_driving_state = \<lparr>lin = 1, ang = pi / 4, stamp = 0\<rparr>"
    "cmd_vel_timeout test_driving_state = 1 / 2"
    unfolding d by (simp_all add: commanded_state_fields twist_fields)
  show "last0_cmd test_driving_state = \<lparr>lin = 1, ang = pi / 4, stamp = 0\<rparr>"
    unfolding d u by (simp add: move_robot_fields commanded_state_fields twist_fields)
  show "right_rear_wheel_joint test_driving_state = 15"
    "left_rear_wheel_joint test_driving_state = 5"
    "right_front_wheel_joint test_driving_state = 5 * sqrt 13"
    "left_front_wheel_joint test_driving_state = 5 * sqrt 5"
    unfolding d u
    by (simp_all add: move_robot_wheels_pos commanded_state_fields twist_fields
          test_controller_fields turning_r_def tan_45
          right_rear_wheel_omega_def left_rear_wheel_omega_def
          right_front_wheel_omega_def left_front_wheel_omega_def
          r_right_front_wheel_def r_left_front_wheel_def power2_eq_square s13 s5)
qed

text \<open>
  The wheel speeds when the two geometry members are equal: the offset of the source,
  half of \<^verbatim>\<open>wheel_separation_l_\<close>, is then half the track width, and its squared term,
  \<^verbatim>\<open>wheel_separation_h_\<close>, is the wheelbase.
\<close>

lemma wheel_speeds_equal_members:
  assumes "reaches_move_robot wheel_pos steer_pos s"
      and "wheel_separation_l s = wheel_separation_h s"
  shows "let s' = update P wheel_pos steer_pos time period s;
             c = curr_cmd_of time s;
             theta = ang c;
             L = wheel_separation_l s;
             W = wheel_separation_h s;
             r = \<bar>L * tan (M_PI P / 2 - theta)\<bar>;
             w_rr = (r + W / 2) * (lin c / r) / wheel_radius s;
             w_lr = (r - W / 2) * (lin c / r) / wheel_radius s;
             w_rf = sqrt ((r + W / 2)\<^sup>2 + L\<^sup>2) * (lin c / r) / wheel_radius s;
             w_lf = sqrt ((r - W / 2)\<^sup>2 + L\<^sup>2) * (lin c / r) / wheel_radius s
         in (theta > 0 \<longrightarrow>
               right_rear_wheel_joint s' = w_rr \<and> left_rear_wheel_joint s' = w_lr \<and>
               right_front_wheel_joint s' = w_rf \<and> left_front_wheel_joint s' = w_lf) \<and>
            (theta \<le> 0 \<longrightarrow>
               right_rear_wheel_joint s' = w_lr \<and> left_rear_wheel_joint s' = w_rr \<and>
               right_front_wheel_joint s' = w_lf \<and> left_front_wheel_joint s' = w_rf)"
proof -
  obtain x where u: "update P wheel_pos steer_pos time period s =
      move_robot P time period (publish_odometry time (s\<lparr>odometry := x\<rparr>))"
    using assms(1) by (rule update_reaches)
  show ?thesis
    unfolding Let_def u
    by (simp add: move_robot_wheels_pos move_robot_wheels_nonpos turning_r_def
          right_rear_wheel_omega_def left_rear_wheel_omega_def
          right_front_wheel_omega_def left_front_wheel_omega_def
          r_right_front_wheel_def r_left_front_wheel_def assms(2))
qed

text \<open>The magnitude of an angle \<open>arctan (n / d)\<close> grows as \<open>|d|\<close> shrinks.\<close>

lemma abs_arctan: "\<bar>arctan x\<bar> = arctan \<bar>x\<bar>"
  by (cases "0 \<le> x") (simp_all add: abs_if arctan_minus not_le)

lemma steer_magnitude:
  assumes "n \<noteq> 0" "d \<noteq> 0" "\<bar>d\<bar> < e"
  shows "\<bar>arctan (n / e)\<bar> < \<bar>arctan (n / d)\<bar>"
proof -
  have e: "0 < e" using assms(3) by linarith
  have "0 < e * \<bar>d\<bar>" using e assms(2) by simp
  then have "\<bar>n\<bar> / e < \<bar>n\<bar> / \<bar>d\<bar>"
    using assms by (intro divide_strict_left_mono) simp_all
  then have "\<bar>n / e\<bar> < \<bar>n / d\<bar>"
    using e by simp
  then show ?thesis
    by (simp only: abs_arctan arctan_less_iff)
qed

subsection \<open>C1: a NaN sensor value\<close>

text \<open>
  Claim C1 says that a closed-loop cycle with a NaN sensor value skips its odometry update
  only and still runs the motion phase. The guard of the source is a \<^verbatim>\<open>return\<close> from
  \<^verbatim>\<open>update\<close>, so the cycle ends there. In the run below the controller is driving, with
  a command that has timed out: the motion phase would write the steering command 0, and
  the cycle with the NaN value leaves the old command \<open>1 / 4\<close> on the joint.
\<close>

theorem update_nan_motion_counterexample:
  "\<not> open_loop (driving_controller 1 1 zero_cmd) \<and> isnan NaN \<and>
   front_steer_joint
     (update (recording_platform pi) NaN (Val 0) 10 (1 / 100) (driving_controller 1 1 zero_cmd)) = 1 / 4 \<and>
   front_steer_joint
     (move_robot (recording_platform pi) 10 (1 / 100)
        (publish_odometry 10 (driving_controller 1 1 zero_cmd))) = 0"
  by (simp add: update_def compute_odometry_def move_robot_def curr_cmd_of_def
        publish_odometry_def Let_def test_defs)

text \<open>
  Claim C1, amended: in closed-loop mode, a cycle in which the rear-wheel position or the
  steer angle read is NaN returns at the guard. The controller is left exactly as it was:
  the odometry object (and with it the pose), the publish time, the command history and
  all seven joint commands are unchanged, and no set point is written in that cycle.
\<close>

theorem update_nan_returns:
  "\<not> open_loop s \<Longrightarrow> isnan wheel_pos \<or> isnan steer_pos \<Longrightarrow>
   update P wheel_pos steer_pos time period s = s"
  by (simp add: update_def compute_odometry_None)

theorem update_nan_returns_witness:
  "\<not> open_loop (driving_controller 1 1 zero_cmd) \<and> (isnan (Val 3) \<or> isnan NaN) \<and>
   update (recording_platform pi) (Val 3) NaN 10 (1 / 100) (driving_controller 1 1 zero_cmd) =
     driving_controller 1 1 zero_cmd"
proof -
  have a: "\<not> open_loop (driving_controller 1 1 zero_cmd)"
    by (simp add: test_defs)
  have b: "isnan (Val 3) \<or> isnan NaN"
    by simp
  show ?thesis
    using a b update_nan_returns [OF a b, of "recording_platform pi" 10 "1 / 100"] by simp
qed

subsection \<open>C2: the speed limiters\<close>

text \<open>
  Claim C2 says that the motion phase applies the limiter to the linear and to the angular
  command before the kinematics. Both calls are comments in the source. In the run below
  the limiters bound the speed by 1 and the angle by \<open>1 / 2\<close>; the command is speed 2,
  angle 1. Limited, it would be speed 1, angle \<open>1 / 2\<close>; the cycle records speed 2 as the
  last command and writes the angle 1 to the steer joint.
\<close>

theorem limiter_applied_counterexample:
  "reaches_move_robot (Val 0) (Val 0) limited_controller \<and>
   lin (limited_cmd (1 / 100) limited_controller (curr_cmd_of 0 limited_controller)) = 1 \<and>
   ang (limited_cmd (1 / 100) limited_controller (curr_cmd_of 0 limited_controller)) = 1 / 2 \<and>
   lin (last0_cmd
     (update (recording_platform pi) (Val 0) (Val 0) 0 (1 / 100) limited_controller)) = 2 \<and>
   front_steer_joint
     (update (recording_platform pi) (Val 0) (Val 0) 0 (1 / 100) limited_controller) = 1"
  by (simp add: reaches_move_robot_def limited_cmd_def limit_def limit_velocity_def
        limit_acceleration_def limit_jerk_def clamp_def curr_cmd_of_def update_def
        compute_odometry_def publish_odometry_def move_robot_def Let_def
        limited_controller_def test_defs)

text \<open>
  Claim C2, amended: in the motion phase of every cycle that reaches it, no limiter is
  applied. The command after the staleness cutoff goes unchanged to the kinematics: it
  becomes the last command \<open>last0_cmd\<close> (the former one moving to \<open>last1_cmd\<close>) and its
  angle is the command of the front steer joint. The cycle neither reads nor writes the
  two limiters, and the period has no influence on it: with other limiters \<open>a\<close> and \<open>b\<close>
  and another period the cycle ends in the same state, but for the limiters themselves.
\<close>

theorem update_ignores_limiters:
  assumes "reaches_move_robot wheel_pos steer_pos s"
  shows "let s' = update P wheel_pos steer_pos time period s
         in last0_cmd s' = curr_cmd_of time s \<and>
            last1_cmd s' = last0_cmd s \<and>
            front_steer_joint s' = ang (curr_cmd_of time s) \<and>
            update P wheel_pos steer_pos time period' (s\<lparr>limiter_lin := a, limiter_ang := b\<rparr>) =
              s'\<lparr>limiter_lin := a, limiter_ang := b\<rparr>"
proof -
  obtain x where u: "update P wheel_pos steer_pos time period s =
      move_robot P time period (publish_odometry time (s\<lparr>odometry := x\<rparr>))"
    using assms by (rule update_reaches)
  have l: "update P wheel_pos steer_pos time period' (s\<lparr>limiter_lin := a, limiter_ang := b\<rparr>) =
        (update P wheel_pos steer_pos time period s)\<lparr>limiter_lin := a, limiter_ang := b\<rparr>"
    by (simp only: update_limiter_ang update_limiter_lin
          update_period [of P wheel_pos steer_pos time period' s period])
  show ?thesis
    unfolding Let_def l by (simp add: u move_robot_fields)
qed

theorem update_ignores_limiters_witness:
  "reaches_move_robot (Val 0) (Val 0) limited_controller \<and>
   last0_cmd (update (recording_platform pi) (Val 0) (Val 0) 0 (1 / 100) limited_controller) =
     \<lparr>lin = 2, ang = 1, stamp = 0\<rparr> \<and>
   last1_cmd (update (recording_platform pi) (Val 0) (Val 0) 0 (1 / 100) limited_controller) =
     zero_cmd \<and>
   front_steer_joint
     (update (recording_platform pi) (Val 0) (Val 0) 0 (1 / 100) limited_controller) = 1 \<and>
   update (recording_platform pi) (Val 0) (Val 0) 0 (1 / 50)
     (limited_controller\<lparr>limiter_lin := default_limiter, limiter_ang := default_limiter\<rparr>) =
     (update (recording_platform pi) (Val 0) (Val 0) 0 (1 / 100) limited_controller)
       \<lparr>limiter_lin := default_limiter, limiter_ang := default_limiter\<rparr>"
proof -
  have a: "reaches_move_robot (Val 0) (Val 0) limited_controller"
    by simp
  have c: "curr_cmd_of 0 limited_controller = \<lparr>lin = 2, ang = 1, stamp = 0\<rparr>"
    by (simp add: curr_cmd_of_def limited_controller_def test_defs)
  have h: "last0_cmd limited_controller = zero_cmd"
    by (simp add: limited_controller_def test_defs)
  show ?thesis
    using a update_ignores_limiters [OF a, of "recording_platform pi" 0 "1 / 100" "1 / 50"
        default_limiter default_limiter]
    unfolding Let_def c h by simp
qed

subsection \<open>C3: the wheel speeds\<close>

text \<open>
  Claim C3. In every state that a run reaches from a successful \<^verbatim>\<open>init\<close>, for the
  command \<open>c\<close> of a cycle that reaches the motion phase, with angle \<open>\<theta>\<close>, wheelbase \<open>L\<close>
  (the member \<^verbatim>\<open>wheel_separation_l_\<close>) and track width \<open>W\<close> (the member
  \<^verbatim>\<open>wheel_separation_h_\<close>): the turning radius is \<open>r = |L tan(M_PI/2 - \<theta>)|\<close>, the rear
  wheels have the radii \<open>r \<plusminus> W/2\<close>, the front wheels the radii
  \<open>sqrt ((r \<plusminus> W/2)\<^sup>2 + L\<^sup>2)\<close> (plus for the values computed as right, minus for those
  computed as left), and each speed set point is the wheel's radius times \<open>linear / r\<close>,
  divided by the physical wheel radius. The values go to the wheels of their own side for
  \<open>\<theta> > 0\<close> and to the opposite side otherwise. The source writes the offset as half of
  \<^verbatim>\<open>wheel_separation_l_\<close> and the squared term as \<^verbatim>\<open>wheel_separation_h_\<close>; the two
  members are equal in every such state, since \<^verbatim>\<open>init\<close> loads both from one key.
\<close>

theorem wheel_speed_formulas:
  assumes "init P robot_hw controller_nh s0 = ReturnTrue s1"
      and "reaches_move_robot wheel_pos steer_pos (run P es s1)"
  shows "let s = run P es s1;
             s' = update P wheel_pos steer_pos time period s;
             c = curr_cmd_of time s;
             theta = ang c;
             L = wheel_separation_l s;
             W = wheel_separation_h s;
             r = \<bar>L * tan (M_PI P / 2 - theta)\<bar>;
             w_rr = (r + W / 2) * (lin c / r) / wheel_radius s;
             w_lr = (r - W / 2) * (lin c / r) / wheel_radius s;
             w_rf = sqrt ((r + W / 2)\<^sup>2 + L\<^sup>2) * (lin c / r) / wheel_radius s;
             w_lf = sqrt ((r - W / 2)\<^sup>2 + L\<^sup>2) * (lin c / r) / wheel_radius s
         in (theta > 0 \<longrightarrow>
               right_rear_wheel_joint s' = w_rr \<and> left_rear_wheel_joint s' = w_lr \<and>
               right_front_wheel_joint s' = w_rf \<and> left_front_wheel_joint s' = w_lf) \<and>
            (theta \<le> 0 \<longrightarrow>
               right_rear_wheel_joint s' = w_lr \<and> left_rear_wheel_joint s' = w_rr \<and>
               right_front_wheel_joint s' = w_lf \<and> left_front_wheel_joint s' = w_rf)"
proof -
  have "load_geometry P controller_nh (load_params P controller_nh s0) = Some s1"
    using assms(1) by (rule init_ReturnTrue)
  then have "wheel_separation_l s1 = wheel_separation_h s1"
    by (rule load_geometry_Some)
  then have e: "wheel_separation_l (run P es s1) = wheel_separation_h (run P es s1)"
    by simp
  show ?thesis
    using wheel_speeds_equal_members [OF assms(2) e, of P time period]
    unfolding Let_def .
qed

theorem wheel_speed_formulas_witness:
  "init (recording_platform pi) test_robot test_params (AckermannSteeringController [] 7) =
     ReturnTrue test_init_state \<and>
   reaches_move_robot (Val 0) (Val 0) (commanded_state twist_plus) \<and>
   0 < ang (curr_cmd_of 0 (commanded_state twist_plus)) \<and>
   right_rear_wheel_joint
     (update (recording_platform pi) (Val 0) (Val 0) 0 (1 / 100) (commanded_state twist_plus)) = 15 \<and>
   left_rear_wheel_joint
     (update (recording_platform pi) (Val 0) (Val 0) 0 (1 / 100) (commanded_state twist_plus)) = 5 \<and>
   right_front_wheel_joint
     (update (recording_platform pi) (Val 0) (Val 0) 0 (1 / 100) (commanded_state twist_plus)) =
     5 * sqrt 13 \<and>
   left_front_wheel_joint
     (update (recording_platform pi) (Val 0) (Val 0) 0 (1 / 100) (commanded_state twist_plus)) =
     5 * sqrt 5 \<and>
   reaches_move_robot (Val 0) (Val 0) (commanded_state twist_minus) \<and>
   ang (curr_cmd_of 0 (commanded_state twist_minus)) \<le> 0 \<and>
   right_rear_wheel_joint
     (update (recording_platform pi) (Val 0) (Val 0) 0 (1 / 100) (commanded_state twist_minus)) = 5 \<and>
   left_rear_wheel_joint
     (update (recording_platform pi) (Val 0) (Val 0) 0 (1 / 100) (commanded_state twist_minus)) = 15"
proof -
  let ?P = "recording_platform pi"
  note i = test_init
  have a: "reaches_move_robot (Val 0) (Val 0) (run ?P [Starting 0, CmdVel 0 1 twist_plus] test_init_state)"
    and b: "reaches_move_robot (Val 0) (Val 0) (run ?P [Starting 0, CmdVel 0 1 twist_minus] test_init_state)"
    by (simp_all del: run.simps)
  have s13: "sqrt (13 / 16) = sqrt 13 / 4" and s5: "sqrt (5 / 16) = sqrt 5 / 4"
    by (simp_all add: real_sqrt_divide)
  have plus:
    "right_rear_wheel_joint (update ?P (Val 0) (Val 0) 0 (1 / 100) (commanded_state twist_plus)) = 15 \<and>
     left_rear_wheel_joint (update ?P (Val 0) (Val 0) 0 (1 / 100) (commanded_state twist_plus)) = 5 \<and>
     right_front_wheel_joint (update ?P (Val 0) (Val 0) 0 (1 / 100) (commanded_state twist_plus)) =
       5 * sqrt 13 \<and>
     left_front_wheel_joint (update ?P (Val 0) (Val 0) 0 (1 / 100) (commanded_state twist_plus)) =
       5 * sqrt 5"
    using wheel_speed_formulas [OF i a, of 0 "1 / 100"]
    unfolding Let_def commanded_state_def [symmetric] commanded_state_fields
      test_controller_fields twist_fields tan_half_pi_minus_quarter
    by (simp add: power2_eq_square s13 s5 tan_45)
  have minus:
    "right_rear_wheel_joint (update ?P (Val 0) (Val 0) 0 (1 / 100) (commanded_state twist_minus)) = 5 \<and>
     left_rear_wheel_joint (update ?P (Val 0) (Val 0) 0 (1 / 100) (commanded_state twist_minus)) = 15"
    using wheel_speed_formulas [OF i b, of 0 "1 / 100"]
    unfolding Let_def commanded_state_def [symmetric] commanded_state_fields
      test_controller_fields twist_fields tan_half_pi_plus_quarter
    by (simp add: tan_three_quarter_pi)
  show ?thesis
    using i plus minus by (simp add: commanded_state_fields twist_fields)
qed

subsection \<open>C4: the straight-ahead command\<close>

text \<open>
  For \<open>\<theta> = 0\<close> the source has no case of its own: the command takes the branch of
  \<open>\<theta> \<le> 0\<close>, with \<open>r = |L tan(M_PI/2)|\<close>. Both front steering angles are then 0. Since
  \<^verbatim>\<open>M_PI\<close> is a double below \<open>\<pi>\<close>, \<open>r\<close> is a large positive number and not infinite, and
  the four wheel speeds are the factors \<open>(r \<plusminus> L/2) / r\<close> and
  \<open>sqrt ((r \<plusminus> L/2)\<^sup>2 + W\<^sup>2) / r\<close> times the speed, which differ from each other in exact
  arithmetic; whether they coincide as doubles is a matter of rounding, outside this
  embedding. Claim C4 is therefore not stated here; the two facts below are what exact
  arithmetic gives.
\<close>

lemma steer_angles_straight:
  "right_wheel_steer_angle 0 l w = 0" "left_wheel_steer_angle 0 l w = 0"
  by (simp_all add: right_wheel_steer_angle_def left_wheel_steer_angle_def)

lemma turning_r_straight_pos:
  assumes "0 < l" "0 < m_pi" "m_pi < pi"
  shows "0 < turning_r m_pi l 0"
proof -
  have "0 < tan (m_pi / 2)"
    using assms by (intro tan_gt_zero) simp_all
  then show ?thesis
    using assms by (simp add: turning_r_def)
qed

subsection \<open>C5: the command timeout\<close>

text \<open>
  Claim C5 says that in every cycle whose command has timed out the cycle goes on with
  speed 0 and angle 0 and all four wheel speed set points are 0. A closed-loop cycle with
  a NaN sensor value returns before the timeout is looked at. In the run below the
  controller is initialised, started and commanded at time 0 (speed 1, angle \<open>\<pi>/4\<close>) and
  runs one cycle, which sets the wheel speeds 15, 5, \<open>5 sqrt 13\<close> and \<open>5 sqrt 5\<close>. At
  time 10 the command is older than the timeout \<open>1 / 2\<close>; the cycle at that time reads a
  NaN wheel position and leaves the last command at speed 1 and all four wheel speeds as
  they were.
\<close>

theorem timeout_nan_cycle_counterexample:
  "init (recording_platform pi) test_robot test_params (AckermannSteeringController [] 7) =
     ReturnTrue test_init_state \<and>
   \<not> open_loop test_driving_state \<and> isnan NaN \<and>
   10 - stamp (command test_driving_state) > cmd_vel_timeout test_driving_state \<and>
   lin (last0_cmd
     (update (recording_platform pi) NaN (Val 0) 10 (1 / 100) test_driving_state)) = 1 \<and>
   right_rear_wheel_joint
     (update (recording_platform pi) NaN (Val 0) 10 (1 / 100) test_driving_state) = 15 \<and>
   left_rear_wheel_joint
     (update (recording_platform pi) NaN (Val 0) 10 (1 / 100) test_driving_state) = 5 \<and>
   right_front_wheel_joint
     (update (recording_platform pi) NaN (Val 0) 10 (1 / 100) test_driving_state) = 5 * sqrt 13 \<and>
   left_front_wheel_joint
     (update (recording_platform pi) NaN (Val 0) 10 (1 / 100) test_driving_state) = 5 * sqrt 5"
proof -
  have "compute_odometry (recording_platform pi) NaN (Val 0) 10 test_driving_state = None"
    by (rule compute_odometry_None) (simp_all add: test_driving_state_fields)
  then have "update (recording_platform pi) NaN (Val 0) 10 (1 / 100) test_driving_state =
      test_driving_state"
    by (simp add: update_def)
  then show ?thesis
    by (simp add: test_init test_driving_state_fields)
qed

text \<open>
  Claim C5, amended: in every cycle that reaches the motion phase (every open-loop cycle,
  and every closed-loop cycle in which neither sensor value is NaN), if the time of the
  cycle minus the stamp of the command in the buffer exceeds \<^verbatim>\<open>cmd_vel_timeout_\<close>, the
  cycle goes on with speed 0 and angle 0 (they are what it records as its last command),
  and the four wheel speed set points it writes are 0. The two divisors of the wheel
  speeds, the turning radius \<open>r\<close> at angle 0 and the wheel radius, are taken to be
  non-zero, as the geometry of the controller has them; for a positive wheelbase member
  and \<open>0 < M_PI < \<pi>\<close> the turning radius is positive (see above).
\<close>

theorem timeout_brakes_wheels:
  assumes "reaches_move_robot wheel_pos steer_pos s"
      and "time - stamp (command s) > cmd_vel_timeout s"
      and "turning_r (M_PI P) (wheel_separation_l s) 0 \<noteq> 0"
      and "wheel_radius s \<noteq> 0"
  shows "let s' = update P wheel_pos steer_pos time period s
         in lin (last0_cmd s') = 0 \<and> ang (last0_cmd s') = 0 \<and>
            right_rear_wheel_joint s' = 0 \<and> left_rear_wheel_joint s' = 0 \<and>
            right_front_wheel_joint s' = 0 \<and> left_front_wheel_joint s' = 0"
proof -
  obtain x where u: "update P wheel_pos steer_pos time period s =
      move_robot P time period (publish_odometry time (s\<lparr>odometry := x\<rparr>))"
    using assms(1) by (rule update_reaches)
  have z: "lin (curr_cmd_of time s) = 0" "ang (curr_cmd_of time s) = 0"
    using timeout_cmd [OF assms(2)] by simp_all
  show ?thesis
    unfolding Let_def u
    by (simp add: move_robot_fields move_robot_wheels_nonpos z
         right_rear_wheel_omega_def left_rear_wheel_omega_def
         right_front_wheel_omega_def left_front_wheel_omega_def)
qed

theorem timeout_brakes_wheels_witness:
  "reaches_move_robot (Val 4) (Val 0) (driving_controller 1 1 cmd_plus) \<and>
   6 / 10 - stamp (command (driving_controller 1 1 cmd_plus)) >
     cmd_vel_timeout (driving_controller 1 1 cmd_plus) \<and>
   turning_r (M_PI (recording_platform (pi - 1 / 10)))
     (wheel_separation_l (driving_controller 1 1 cmd_plus)) 0 \<noteq> 0 \<and>
   wheel_radius (driving_controller 1 1 cmd_plus) \<noteq> 0 \<and>
   right_rear_wheel_joint (driving_controller 1 1 cmd_plus) = 2 \<and>
   right_rear_wheel_joint
     (update (recording_platform (pi - 1 / 10)) (Val 4) (Val 0) (6 / 10) (1 / 100)
        (driving_controller 1 1 cmd_plus)) = 0 \<and>
   left_rear_wheel_joint
     (update (recording_platform (pi - 1 / 10)) (Val 4) (Val 0) (6 / 10) (1 / 100)
        (driving_controller 1 1 cmd_plus)) = 0 \<and>
   right_front_wheel_joint
     (update (recording_platform (pi - 1 / 10)) (Val 4) (Val 0) (6 / 10) (1 / 100)
        (driving_controller 1 1 cmd_plus)) = 0 \<and>
   left_front_wheel_joint
     (update (recording_platform (pi - 1 / 10)) (Val 4) (Val 0) (6 / 10) (1 / 100)
        (driving_controller 1 1 cmd_plus)) = 0"
proof -
  have a: "reaches_move_robot (Val 4) (Val 0) (driving_controller 1 1 cmd_plus)"
    by simp
  have b: "6 / 10 - stamp (command (driving_controller 1 1 cmd_plus)) >
             cmd_vel_timeout (driving_controller 1 1 cmd_plus)"
    by (simp add: test_defs cmd_plus_def)
  have "0 < pi - 1 / 10" "pi - 1 / 10 < pi"
    using pi_ge_two by linarith+
  then have "0 < turning_r (pi - 1 / 10) 1 0"
    by (intro turning_r_straight_pos) simp_all
  then have c: "turning_r (M_PI (recording_platform (pi - 1 / 10)))
      (wheel_separation_l (driving_controller 1 1 cmd_plus)) 0 \<noteq> 0"
    by (simp add: test_defs)
  have d: "wheel_radius (driving_controller 1 1 cmd_plus) \<noteq> 0"
    by (simp add: test_defs)
  have e: "right_rear_wheel_joint (driving_controller 1 1 cmd_plus) = 2"
    by (simp add: test_defs)
  show ?thesis
    using a b c d e timeout_brakes_wheels [OF a b c d, of "1 / 100"]
    unfolding Let_def by simp
qed

subsection \<open>C6: which computed value goes to which actuator\<close>

text \<open>
  Claim C6. In every cycle that reaches the motion phase, the angle computed as
  \<open>right_wheel_steer_angle\<close> is the command of the left front steer joint and the angle
  computed as \<open>left_wheel_steer_angle\<close> that of the right one; the four wheel speeds
  computed as right and left go to the wheels of their own side when the commanded angle
  \<open>theta\<close> is positive, and to the wheels of the opposite side for every \<open>theta \<le> 0\<close>.
\<close>

theorem steer_and_wheel_assignment:
  assumes "reaches_move_robot wheel_pos steer_pos s"
  shows "let s' = update P wheel_pos steer_pos time period s;
             c = curr_cmd_of time s;
             theta = ang c;
             l = wheel_separation_l s;
             h = wheel_separation_h s;
             r = turning_r (M_PI P) l theta;
             omega_rr = right_rear_wheel_omega r l (lin c) / wheel_radius s;
             omega_lr = left_rear_wheel_omega r l (lin c) / wheel_radius s;
             omega_rf = right_front_wheel_omega r l h (lin c) / wheel_radius s;
             omega_lf = left_front_wheel_omega r l h (lin c) / wheel_radius s
         in left_front_steer_joint s' = right_wheel_steer_angle theta l h \<and>
            right_front_steer_joint s' = left_wheel_steer_angle theta l h \<and>
            (theta > 0 \<longrightarrow>
               right_rear_wheel_joint s' = omega_rr \<and> left_rear_wheel_joint s' = omega_lr \<and>
               right_front_wheel_joint s' = omega_rf \<and> left_front_wheel_joint s' = omega_lf) \<and>
            (theta \<le> 0 \<longrightarrow>
               right_rear_wheel_joint s' = omega_lr \<and> left_rear_wheel_joint s' = omega_rr \<and>
               right_front_wheel_joint s' = omega_lf \<and> left_front_wheel_joint s' = omega_rf)"
proof -
  obtain x where u: "update P wheel_pos steer_pos time period s =
      move_robot P time period (publish_odometry time (s\<lparr>odometry := x\<rparr>))"
    using assms by (rule update_reaches)
  show ?thesis
    unfolding Let_def u
    by (simp add: move_robot_fields move_robot_wheels_pos move_robot_wheels_nonpos)
qed

theorem steer_and_wheel_assignment_witness:
  "reaches_move_robot (Val 0) (Val 0) (test_controller 1 1 cmd_plus) \<and>
   0 < ang (curr_cmd_of 0 (test_controller 1 1 cmd_plus)) \<and>
   left_front_steer_joint
     (update (recording_platform pi) (Val 0) (Val 0) 0 (1 / 100) (test_controller 1 1 cmd_plus)) =
     arctan 2 \<and>
   right_front_steer_joint
     (update (recording_platform pi) (Val 0) (Val 0) 0 (1 / 100) (test_controller 1 1 cmd_plus)) =
     arctan (2 / 3) \<and>
   right_rear_wheel_joint
     (update (recording_platform pi) (Val 0) (Val 0) 0 (1 / 100) (test_controller 1 1 cmd_plus)) =
     3 / 2 \<and>
   left_rear_wheel_joint
     (update (recording_platform pi) (Val 0) (Val 0) 0 (1 / 100) (test_controller 1 1 cmd_plus)) =
     1 / 2 \<and>
   reaches_move_robot (Val 0) (Val 0) (test_controller 1 1 cmd_minus) \<and>
   ang (curr_cmd_of 0 (test_controller 1 1 cmd_minus)) \<le> 0 \<and>
   left_front_steer_joint
     (update (recording_platform pi) (Val 0) (Val 0) 0 (1 / 100) (test_controller 1 1 cmd_minus)) =
     arctan (- (2 / 3)) \<and>
   right_front_steer_joint
     (update (recording_platform pi) (Val 0) (Val 0) 0 (1 / 100) (test_controller 1 1 cmd_minus)) =
     arctan (- 2) \<and>
   right_rear_wheel_joint
     (update (recording_platform pi) (Val 0) (Val 0) 0 (1 / 100) (test_controller 1 1 cmd_minus)) =
     1 / 2 \<and>
   left_rear_wheel_joint
     (update (recording_platform pi) (Val 0) (Val 0) 0 (1 / 100) (test_controller 1 1 cmd_minus)) =
     3 / 2"
proof -
  have a: "reaches_move_robot (Val 0) (Val 0) (test_controller 1 1 cmd_plus)"
    and b: "reaches_move_robot (Val 0) (Val 0) (test_controller 1 1 cmd_minus)"
    by simp_all
  have p: "0 < ang cmd_plus" "lin cmd_plus = 1" "ang cmd_plus = pi / 4"
    and m: "ang cmd_minus \<le> 0" "lin cmd_minus = 1" "ang cmd_minus = - (pi / 4)"
    by (simp_all add: cmd_plus_def cmd_minus_def)
  have rp: "turning_r pi 1 (pi / 4) = 1"
    unfolding turning_r_def tan_half_pi_minus_quarter by simp
  have rm: "turning_r pi 1 (- (pi / 4)) = 1"
    unfolding turning_r_def tan_half_pi_plus_quarter by simp
  have sp: "right_wheel_steer_angle (pi / 4) 1 1 = arctan 2"
    "left_wheel_steer_angle (pi / 4) 1 1 = arctan (2 / 3)"
    by (simp_all add: right_wheel_steer_angle_def left_wheel_steer_angle_def
          sin_45 cos_45 field_simps)
  have sm: "right_wheel_steer_angle (- (pi / 4)) 1 1 = arctan (- (2 / 3))"
    "left_wheel_steer_angle (- (pi / 4)) 1 1 = arctan (- 2)"
    by (simp_all add: right_wheel_steer_angle_def left_wheel_steer_angle_def
          sin_45 cos_45 field_simps)
  have plus:
    "left_front_steer_joint
       (update (recording_platform pi) (Val 0) (Val 0) 0 (1 / 100) (test_controller 1 1 cmd_plus)) =
       arctan 2 \<and>
     right_front_steer_joint
       (update (recording_platform pi) (Val 0) (Val 0) 0 (1 / 100) (test_controller 1 1 cmd_plus)) =
       arctan (2 / 3) \<and>
     right_rear_wheel_joint
       (update (recording_platform pi) (Val 0) (Val 0) 0 (1 / 100) (test_controller 1 1 cmd_plus)) =
       3 / 2 \<and>
     left_rear_wheel_joint
       (update (recording_platform pi) (Val 0) (Val 0) 0 (1 / 100) (test_controller 1 1 cmd_plus)) =
       1 / 2"
    using steer_and_wheel_assignment [OF a, of "recording_platform pi" 0 "1 / 100"] p(1)
    unfolding Let_def curr_cmd_of_test test_controller_fields p(2,3) rp sp
    by (simp add: right_rear_wheel_omega_def left_rear_wheel_omega_def)
  have minus:
    "left_front_steer_joint
       (update (recording_platform pi) (Val 0) (Val 0) 0 (1 / 100) (test_controller 1 1 cmd_minus)) =
       arctan (- (2 / 3)) \<and>
     right_front_steer_joint
       (update (recording_platform pi) (Val 0) (Val 0) 0 (1 / 100) (test_controller 1 1 cmd_minus)) =
       arctan (- 2) \<and>
     right_rear_wheel_joint
       (update (recording_platform pi) (Val 0) (Val 0) 0 (1 / 100) (test_controller 1 1 cmd_minus)) =
       1 / 2 \<and>
     left_rear_wheel_joint
       (update (recording_platform pi) (Val 0) (Val 0) 0 (1 / 100) (test_controller 1 1 cmd_minus)) =
       3 / 2"
    using steer_and_wheel_assignment [OF b, of "recording_platform pi" 0 "1 / 100"] m(1)
    unfolding Let_def curr_cmd_of_test test_controller_fields m(2,3) rm sm
    by (simp add: right_rear_wheel_omega_def left_rear_wheel_omega_def)
  show ?thesis
    using a b plus minus p(1) m(1) by (simp add: curr_cmd_of_test)
qed

subsection \<open>C7: sign and order of the two steering angles\<close>

text \<open>
  Claim C7 says that for every \<open>\<theta>\<close> strictly between \<open>-\<pi>/2\<close> and \<open>\<pi>/2\<close> other than 0 and
  every positive \<open>L\<close> and \<open>W\<close> both computed angles have the sign of \<open>\<theta>\<close>. For a steep
  angle the smaller of the two denominators is negative and so is the angle. With
  \<open>L = W = 1\<close> and \<open>\<theta> = arctan 3\<close>, which is positive, the sine is three times the
  cosine, and the angle computed as right is \<open>arctan (-6)\<close>.
\<close>

theorem steer_angle_sign_counterexample:
  "- (pi / 2) < arctan 3 \<and> arctan 3 < pi / 2 \<and> arctan 3 \<noteq> 0 \<and> (0::real) < 1 \<and>
   0 < arctan 3 \<and> right_wheel_steer_angle (arctan 3) 1 1 < 0"
proof -
  have "right_wheel_steer_angle (arctan 3) 1 1 = arctan (- 6)"
    by (simp add: right_wheel_steer_angle_def sin_arctan cos_arctan field_simps)
  then show ?thesis
    using arctan_lbound [of 3] arctan_ubound [of 3] by simp
qed

text \<open>
  Claim C7, amended: for every \<open>\<theta>\<close> strictly between \<open>-\<pi>/2\<close> and \<open>\<pi>/2\<close> other than 0 and
  every positive \<open>L\<close> and \<open>W\<close>, the angle of the outer wheel (the one computed as left for
  \<open>\<theta> > 0\<close>, as right for \<open>\<theta> < 0\<close>) has the sign of \<open>\<theta>\<close>; the angle of the inner wheel
  is strictly larger in magnitude than that of the outer wheel whenever its denominator
  \<open>2 L cos \<theta> - W |sin \<theta>|\<close> is not zero; and the angle of the inner wheel has the sign
  of \<open>\<theta>\<close> when that denominator is positive and the opposite sign when it is negative.
\<close>

theorem steer_angles_sign_and_order:
  assumes "- (pi / 2) < theta" "theta < pi / 2" "theta \<noteq> 0" "0 < L" "0 < W"
  shows "(0 < theta \<longrightarrow>
            0 < left_wheel_steer_angle theta L W \<and>
            (2 * L * cos theta - W * sin theta \<noteq> 0 \<longrightarrow>
               \<bar>left_wheel_steer_angle theta L W\<bar> < \<bar>right_wheel_steer_angle theta L W\<bar>) \<and>
            (W * sin theta < 2 * L * cos theta \<longrightarrow> 0 < right_wheel_steer_angle theta L W) \<and>
            (2 * L * cos theta < W * sin theta \<longrightarrow> right_wheel_steer_angle theta L W < 0)) \<and>
         (theta < 0 \<longrightarrow>
            right_wheel_steer_angle theta L W < 0 \<and>
            (2 * L * cos theta + W * sin theta \<noteq> 0 \<longrightarrow>
               \<bar>right_wheel_steer_angle theta L W\<bar> < \<bar>left_wheel_steer_angle theta L W\<bar>) \<and>
            (- (W * sin theta) < 2 * L * cos theta \<longrightarrow> left_wheel_steer_angle theta L W < 0) \<and>
            (2 * L * cos theta < - (W * sin theta) \<longrightarrow> 0 < left_wheel_steer_angle theta L W))"
proof -
  let ?n = "2 * L * sin theta"
  let ?dr = "2 * L * cos theta - W * sin theta"
  let ?dl = "2 * L * cos theta + W * sin theta"
  have c: "0 < cos theta"
    using assms(1,2) by (rule cos_gt_zero_pi)
  then have lc: "0 < 2 * L * cos theta"
    using assms(4) by simp
  have pos: ?thesis if t: "0 < theta"
  proof -
    have s: "0 < sin theta"
      using t assms(2) by (intro sin_gt_zero) (simp_all add: field_simps)
    have n: "0 < ?n" using s assms(4) by simp
    have ws: "0 < W * sin theta" using s assms(5) by simp
    have dl: "0 < ?dl" using lc ws by simp
    have outer: "0 < left_wheel_steer_angle theta L W"
      unfolding left_wheel_steer_angle_def using n dl by simp
    have mag: "\<bar>left_wheel_steer_angle theta L W\<bar> < \<bar>right_wheel_steer_angle theta L W\<bar>"
      if nz: "?dr \<noteq> 0"
    proof -
      have "?n \<noteq> 0" using n by linarith
      moreover have "\<bar>?dr\<bar> < ?dl" using lc ws by linarith
      ultimately show ?thesis
        unfolding left_wheel_steer_angle_def right_wheel_steer_angle_def
        using nz by (intro steer_magnitude)
    qed
    have same: "0 < right_wheel_steer_angle theta L W" if "W * sin theta < 2 * L * cos theta"
      unfolding right_wheel_steer_angle_def using n that by simp
    have opp: "right_wheel_steer_angle theta L W < 0" if "2 * L * cos theta < W * sin theta"
      unfolding right_wheel_steer_angle_def using n that by (simp add: divide_pos_neg)
    show ?thesis
      using t outer mag same opp by simp
  qed
  have neg: ?thesis if t: "theta < 0"
  proof -
    have "0 < sin (- theta)"
      using t assms(1) by (intro sin_gt_zero) (simp_all add: field_simps)
    then have s: "sin theta < 0" by simp
    have n: "?n < 0" using s assms(4) by (simp add: mult_pos_neg)
    have ws: "W * sin theta < 0" using s assms(5) by (simp add: mult_pos_neg)
    have dr: "0 < ?dr" using lc ws by simp
    have outer: "right_wheel_steer_angle theta L W < 0"
      unfolding right_wheel_steer_angle_def using n dr by (simp add: divide_neg_pos)
    have mag: "\<bar>right_wheel_steer_angle theta L W\<bar> < \<bar>left_wheel_steer_angle theta L W\<bar>"
      if nz: "?dl \<noteq> 0"
    proof -
      have "?n \<noteq> 0" using n by linarith
      moreover have "\<bar>?dl\<bar> < ?dr" using lc ws by linarith
      ultimately show ?thesis
        unfolding left_wheel_steer_angle_def right_wheel_steer_angle_def
        using nz by (intro steer_magnitude)
    qed
    have same: "left_wheel_steer_angle theta L W < 0" if "- (W * sin theta) < 2 * L * cos theta"
      unfolding left_wheel_steer_angle_def using n that by (simp add: divide_neg_pos)
    have opp: "0 < left_wheel_steer_angle theta L W" if "2 * L * cos theta < - (W * sin theta)"
      unfolding left_wheel_steer_angle_def using n that by (simp add: divide_neg_neg)
    show ?thesis
      using t outer mag same opp by simp
  qed
  show ?thesis
  proof (cases "0 < theta")
    case True
    then show ?thesis by (rule pos)
  next
    case False
    then have "theta < 0" using assms(3) by simp
    then show ?thesis by (rule neg)
  qed
qed

theorem steer_angles_sign_and_order_witness:
  "- (pi / 2) < pi / 4 \<and> pi / 4 < pi / 2 \<and> pi / 4 \<noteq> 0 \<and> (0::real) < 1 \<and> 0 < pi / 4 \<and>
   1 * sin (pi / 4) < 2 * 1 * cos (pi / 4) \<and>
   0 < left_wheel_steer_angle (pi / 4) 1 1 \<and> 0 < right_wheel_steer_angle (pi / 4) 1 1 \<and>
   \<bar>left_wheel_steer_angle (pi / 4) 1 1\<bar> < \<bar>right_wheel_steer_angle (pi / 4) 1 1\<bar> \<and>
   - (pi / 2) < arctan 3 \<and> arctan 3 < pi / 2 \<and> arctan 3 \<noteq> 0 \<and> 0 < arctan 3 \<and>
   2 * 1 * cos (arctan 3) < 1 * sin (arctan 3) \<and>
   0 < left_wheel_steer_angle (arctan 3) 1 1 \<and> right_wheel_steer_angle (arctan 3) 1 1 < 0 \<and>
   \<bar>left_wheel_steer_angle (arctan 3) 1 1\<bar> < \<bar>right_wheel_steer_angle (arctan 3) 1 1\<bar> \<and>
   - (pi / 2) < - (pi / 4) \<and> - (pi / 4) < pi / 2 \<and> - (pi / 4) \<noteq> 0 \<and> - (pi / 4) < 0 \<and>
   - (1 * sin (- (pi / 4))) < 2 * 1 * cos (- (pi / 4)) \<and>
   right_wheel_steer_angle (- (pi / 4)) 1 1 < 0 \<and> left_wheel_steer_angle (- (pi / 4)) 1 1 < 0 \<and>
   \<bar>right_wheel_steer_angle (- (pi / 4)) 1 1\<bar> < \<bar>left_wheel_steer_angle (- (pi / 4)) 1 1\<bar> \<and>
   - (pi / 2) < arctan (- 3) \<and> arctan (- 3) < pi / 2 \<and> arctan (- 3) \<noteq> 0 \<and> arctan (- 3) < 0 \<and>
   2 * 1 * cos (arctan (- 3)) < - (1 * sin (arctan (- 3))) \<and>
   right_wheel_steer_angle (arctan (- 3)) 1 1 < 0 \<and> 0 < left_wheel_steer_angle (arctan (- 3)) 1 1 \<and>
   \<bar>right_wheel_steer_angle (arctan (- 3)) 1 1\<bar> < \<bar>left_wheel_steer_angle (arctan (- 3)) 1 1\<bar>"
proof -
  have one: "(0::real) < 1" by simp
  have a: "- (pi / 2) < pi / 4" "pi / 4 < pi / 2" "0 < pi / 4"
    using pi_gt_zero by linarith+
  have a0: "pi / 4 \<noteq> 0" by simp
  have ad: "1 * sin (pi / 4) < 2 * 1 * cos (pi / 4)"
    by (simp add: sin_45 cos_45)
  have b: "- (pi / 2) < arctan 3" "arctan 3 < pi / 2" "0 < arctan 3"
    using arctan_lbound [of 3] arctan_ubound [of 3] by simp_all
  have b0: "arctan 3 \<noteq> 0" by simp
  have bd: "2 * 1 * cos (arctan 3) < 1 * sin (arctan 3)"
    by (simp add: sin_arctan cos_arctan field_simps)
  have c: "- (pi / 2) < - (pi / 4)" "- (pi / 4) < pi / 2" "- (pi / 4) < 0"
    using pi_gt_zero by linarith+
  have c0: "- (pi / 4) \<noteq> 0" by simp
  have cd: "- (1 * sin (- (pi / 4))) < 2 * 1 * cos (- (pi / 4))"
    by (simp add: sin_45 cos_45)
  have d: "- (pi / 2) < arctan (- 3)" "arctan (- 3) < pi / 2" "arctan (- 3) < 0"
    using arctan_lbound [of "- 3"] arctan_ubound [of "- 3"] by simp_all
  have d0: "arctan (- 3) \<noteq> 0" by simp
  have dd: "2 * 1 * cos (arctan (- 3)) < - (1 * sin (arctan (- 3)))"
    by (simp add: sin_arctan cos_arctan field_simps)
  have w1: "0 < left_wheel_steer_angle (pi / 4) 1 1 \<and> 0 < right_wheel_steer_angle (pi / 4) 1 1 \<and>
      \<bar>left_wheel_steer_angle (pi / 4) 1 1\<bar> < \<bar>right_wheel_steer_angle (pi / 4) 1 1\<bar>"
  proof -
    have "2 * 1 * cos (pi / 4) - 1 * sin (pi / 4) \<noteq> 0" using ad by linarith
    then show ?thesis
      using steer_angles_sign_and_order [OF a(1) a(2) a0 one one] a(3) ad by blast
  qed
  have w2: "0 < left_wheel_steer_angle (arctan 3) 1 1 \<and> right_wheel_steer_angle (arctan 3) 1 1 < 0 \<and>
      \<bar>left_wheel_steer_angle (arctan 3) 1 1\<bar> < \<bar>right_wheel_steer_angle (arctan 3) 1 1\<bar>"
  proof -
    have "2 * 1 * cos (arctan 3) - 1 * sin (arctan 3) \<noteq> 0" using bd by linarith
    then show ?thesis
      using steer_angles_sign_and_order [OF b(1) b(2) b0 one one] b(3) bd by blast
  qed
  have w3: "right_wheel_steer_angle (- (pi / 4)) 1 1 < 0 \<and> left_wheel_steer_angle (- (pi / 4)) 1 1 < 0 \<and>
      \<bar>right_wheel_steer_angle (- (pi / 4)) 1 1\<bar> < \<bar>left_wheel_steer_angle (- (pi / 4)) 1 1\<bar>"
  proof -
    have "2 * 1 * cos (- (pi / 4)) + 1 * sin (- (pi / 4)) \<noteq> 0" using cd by linarith
    then show ?thesis
      using steer_angles_sign_and_order [OF c(1) c(2) c0 one one] c(3) cd by blast
  qed
  have w4: "right_wheel_steer_angle (arctan (- 3)) 1 1 < 0 \<and>
      0 < left_wheel_steer_angle (arctan (- 3)) 1 1 \<and>
      \<bar>right_wheel_steer_angle (arctan (- 3)) 1 1\<bar> < \<bar>left_wheel_steer_angle (arctan (- 3)) 1 1\<bar>"
  proof -
    have "2 * 1 * cos (arctan (- 3)) + 1 * sin (arctan (- 3)) \<noteq> 0" using dd by linarith
    then show ?thesis
      using steer_angles_sign_and_order [OF d(1) d(2) d0 one one] d(3) dd by blast
  qed
  show ?thesis
    using one a a0 ad b b0 bd c c0 cd d d0 dd w1 w2 w3 w4 by blast
qed

subsection \<open>C8: more than one command publisher\<close>

text \<open>
  Claim C8. When the controller is running, does not allow several command publishers
  and sees more than one at the arrival of a command, the callback sets all four wheel
  commands and all three steering commands to zero, and leaves the realtime buffer (and
  the command structure behind it) as it was: the arriving command is not written. It
  prints the error at most once, and only when a second has passed since it last printed
  it, so that the printed reports stay spaced by the window of the throttle. The
  invariant \<open>throttle_inv\<close> holds for the constructed controller and is kept by
  \<^verbatim>\<open>init\<close> and by every later call.
\<close>

theorem multiple_publishers_brake:
  assumes "running s" "\<not> allow_multiple_cmd_vel_publishers s" "1 < num_publishers"
      and "throttle_inv s"
  shows "let s' = cmdVelCallback now num_publishers cmd s
         in braked s' \<and>
            command s' = command s \<and> command_struct s' = command_struct s \<and>
            (multi_pub_errors s' = multi_pub_errors s \<or>
             multi_pub_errors s' = now # multi_pub_errors s) \<and>
            throttle_inv s'"
proof -
  have c: "cmdVelCallback now num_publishers cmd s = brake (ROS_ERROR_STREAM_THROTTLE 1.0 now s)"
    using assms(1-3) by (simp add: cmdVelCallback_def)
  show ?thesis
    unfolding Let_def c
    using throttle_reports [of 1 now s] throttle_inv_throttle [OF assms(4), of now]
    by simp
qed

theorem multiple_publishers_brake_witness:
  "running policing_controller \<and> \<not> allow_multiple_cmd_vel_publishers policing_controller \<and>
   (1::nat) < 2 \<and> throttle_inv policing_controller \<and>
   \<not> braked policing_controller \<and>
   braked (cmdVelCallback 6 2 \<lparr>linear_x = 3, angular_z = 1\<rparr> policing_controller) \<and>
   command (cmdVelCallback 6 2 \<lparr>linear_x = 3, angular_z = 1\<rparr> policing_controller) =
     \<lparr>lin = 1, ang = 1 / 4, stamp = 5\<rparr> \<and>
   multi_pub_errors (cmdVelCallback 6 2 \<lparr>linear_x = 3, angular_z = 1\<rparr> policing_controller) = [6] \<and>
   multi_pub_errors
     (cmdVelCallback (13 / 2) 2 \<lparr>linear_x = 3, angular_z = 1\<rparr>
        (cmdVelCallback 6 2 \<lparr>linear_x = 3, angular_z = 1\<rparr> policing_controller)) = [6] \<and>
   multi_pub_errors
     (cmdVelCallback 7 2 \<lparr>linear_x = 3, angular_z = 1\<rparr>
        (cmdVelCallback 6 2 \<lparr>linear_x = 3, angular_z = 1\<rparr> policing_controller)) = [7, 6]"
proof -
  let ?s = policing_controller
  let ?c = "\<lparr>linear_x = 3, angular_z = 1\<rparr>"
  have a: "running ?s" "\<not> allow_multiple_cmd_vel_publishers ?s" "(1::nat) < 2" "throttle_inv ?s"
    by (simp_all add: policing_controller_def throttle_inv_def test_defs)
  have b: "\<not> braked ?s"
    by (simp add: braked_def policing_controller_def test_defs)
  have l: "multi_pub_errors (cmdVelCallback 6 2 ?c ?s) = [6]"
    "command (cmdVelCallback 6 2 ?c ?s) = \<lparr>lin = 1, ang = 1 / 4, stamp = 5\<rparr>"
    "multi_pub_errors (cmdVelCallback (13 / 2) 2 ?c (cmdVelCallback 6 2 ?c ?s)) = [6]"
    "multi_pub_errors (cmdVelCallback 7 2 ?c (cmdVelCallback 6 2 ?c ?s)) = [7, 6]"
    by (simp_all add: cmdVelCallback_def brake_def ROS_ERROR_STREAM_THROTTLE_def Let_def
          policing_controller_def test_defs)
  show ?thesis
    using a b l multiple_publishers_brake [OF a, of 6 ?c]
    unfolding Let_def by simp
qed

subsection \<open>C9: one key for two geometry members\<close>

text \<open>
  Claim C9. After every successful \<^verbatim>\<open>init\<close>, the member used as the wheelbase,
  \<^verbatim>\<open>wheel_separation_l_\<close>, and the member used as the track width,
  \<^verbatim>\<open>wheel_separation_h_\<close>, both hold the value of the key \<^verbatim>\<open>wheel_separation_h\<close> and are
  equal. No later call changes either, so every later cycle computes the two front
  steering angles with length equal to width, and every later closed-loop odometry update
  gets the gain computed from that same value.
\<close>

theorem init_length_equals_width:
  assumes "init P robot_hw controller_nh s0 = ReturnTrue s"
  shows "getParam_double controller_nh ''wheel_separation_h'' = Some (wheel_separation_h s) \<and>
         getParam_double controller_nh ''wheel_separation_h'' = Some (wheel_separation_l s) \<and>
         (\<forall>es. wheel_separation_l (run P es s) = wheel_separation_h s \<and>
               wheel_separation_h (run P es s) = wheel_separation_h s) \<and>
         (\<forall>es wheel_pos steer_pos time period.
            reaches_move_robot wheel_pos steer_pos (run P es s) \<longrightarrow>
              left_front_steer_joint (update P wheel_pos steer_pos time period (run P es s)) =
                right_wheel_steer_angle (ang (curr_cmd_of time (run P es s)))
                  (wheel_separation_h s) (wheel_separation_h s) \<and>
              right_front_steer_joint (update P wheel_pos steer_pos time period (run P es s)) =
                left_wheel_steer_angle (ang (curr_cmd_of time (run P es s)))
                  (wheel_separation_h s) (wheel_separation_h s)) \<and>
         (\<forall>es wp sp time period.
            \<not> open_loop (run P es s) \<longrightarrow>
              odometry (update P (Val wp) (Val sp) time period (run P es s)) =
                Odometry_update P wp (sp * steer_pos_multiplier (run P es s)) time
                  (odometry_gain (M_PI P) (wheel_separation_h s) sp) (odometry (run P es s)))"
proof -
  have g: "load_geometry P controller_nh (load_params P controller_nh s0) = Some s"
    using assms by (rule init_ReturnTrue)
  have k: "getParam_double controller_nh ''wheel_separation_h'' = Some (wheel_separation_h s)"
    and e: "wheel_separation_l s = wheel_separation_h s"
    using load_geometry_Some [OF g] by simp_all
  have cyc: "left_front_steer_joint (update P wheel_pos steer_pos time period s') =
               right_wheel_steer_angle (ang (curr_cmd_of time s'))
                 (wheel_separation_l s') (wheel_separation_h s') \<and>
             right_front_steer_joint (update P wheel_pos steer_pos time period s') =
               left_wheel_steer_angle (ang (curr_cmd_of time s'))
                 (wheel_separation_l s') (wheel_separation_h s')"
    if rch: "reaches_move_robot wheel_pos steer_pos s'"
    for wheel_pos steer_pos time period and s' :: "'a controller"
  proof -
    obtain x where u: "update P wheel_pos steer_pos time period s' =
        move_robot P time period (publish_odometry time (s'\<lparr>odometry := x\<rparr>))"
      using rch by (rule update_reaches)
    show ?thesis by (simp add: u move_robot_fields)
  qed
  have odo: "odometry (update P (Val wp) (Val sp) time period s') =
               Odometry_update P wp (sp * steer_pos_multiplier s') time
                 (odometry_gain (M_PI P) (wheel_separation_l s') sp) (odometry s')"
    if "\<not> open_loop s'" for wp sp time period and s' :: "'a controller"
    using that by (simp add: update_def compute_odometry_def Let_def)
  show ?thesis
    using k e cyc odo by (auto simp: e)
qed

theorem init_length_equals_width_witness:
  "\<exists>s. init (recording_platform pi) test_robot test_params (AckermannSteeringController [] 7) =
          ReturnTrue s \<and>
        getParam_double test_params ''wheel_separation_l'' = Some 2 \<and>
        wheel_separation_h s = 1 / 2 \<and> wheel_separation_l s = 1 / 2 \<and>
        wheel_separation_l
          (run (recording_platform pi)
             [Starting 0, CmdVel 1 1 \<lparr>linear_x = 1, angular_z = 1 / 4\<rparr>,
              Update (Val 0) (Val 0) 1 (1 / 100)] s) = 1 / 2 \<and>
        reaches_move_robot (Val 0) (Val 0) (run (recording_platform pi) [Starting 0] s) \<and>
        left_front_steer_joint
          (update (recording_platform pi) (Val 0) (Val 0) 1 (1 / 100)
             (run (recording_platform pi) [Starting 0] s)) =
          right_wheel_steer_angle
            (ang (curr_cmd_of 1 (run (recording_platform pi) [Starting 0] s))) (1 / 2) (1 / 2) \<and>
        \<not> open_loop (run (recording_platform pi) [] s) \<and>
        odometry (update (recording_platform pi) (Val 3) (Val (pi / 4)) 1 (1 / 100)
                    (run (recording_platform pi) [] s)) =
          [3, pi / 4, 1, odometry_gain pi (1 / 2) (pi / 4)] # odometry s"
proof -
  let ?P = "recording_platform pi"
  obtain s where i: "init ?P test_robot test_params (AckermannSteeringController [] 7) = ReturnTrue s"
    using test_init_succeeds by blast
  note t = init_length_equals_width [OF i]
  have h: "wheel_separation_h s = 1 / 2"
    using t by (simp add: test_params_lookup)
  have g: "load_geometry ?P test_params (load_params ?P test_params (AckermannSteeringController [] 7)) =
             Some s"
    using i by (rule init_ReturnTrue)
  have o: "\<not> open_loop (run ?P [] s)" and m: "steer_pos_multiplier s = 1"
    using g
    by (auto simp: load_geometry_def load_params_def Let_def param_bool_def getParam_bool_def
          param_double_def getParam_double_def
          test_params_def AckermannSteeringController_def split: option.splits)
  have r: "reaches_move_robot (Val 0) (Val 0) (run ?P [Starting 0] s)"
    by simp
  have 1: "wheel_separation_l s = 1 / 2"
    using t h by simp
  have 2: "wheel_separation_l
          (run ?P [Starting 0, CmdVel 1 1 \<lparr>linear_x = 1, angular_z = 1 / 4\<rparr>,
              Update (Val 0) (Val 0) 1 (1 / 100)] s) = 1 / 2"
    using t h by metis
  have 3: "left_front_steer_joint
          (update ?P (Val 0) (Val 0) 1 (1 / 100) (run ?P [Starting 0] s)) =
          right_wheel_steer_angle (ang (curr_cmd_of 1 (run ?P [Starting 0] s))) (1 / 2) (1 / 2)"
    using t r h by metis
  have "odometry (update ?P (Val 3) (Val (pi / 4)) 1 (1 / 100) (run ?P [] s)) =
          Odometry_update ?P 3 (pi / 4 * steer_pos_multiplier (run ?P [] s)) 1
            (odometry_gain (M_PI ?P) (wheel_separation_h s) (pi / 4)) (odometry (run ?P [] s))"
    using t o by metis
  then have 4: "odometry (update ?P (Val 3) (Val (pi / 4)) 1 (1 / 100) (run ?P [] s)) =
          [3, pi / 4, 1, odometry_gain pi (1 / 2) (pi / 4)] # odometry s"
    by (simp add: h m recording_platform_def)
  show ?thesis
    using i h 1 2 3 4 r o test_params_lookup(2) by blast
qed

subsection \<open>C10: the gain of the odometry update\<close>

text \<open>
  Claim C10. In every closed-loop cycle whose two sensor values are not NaN, the gain
  handed to the odometry update is \<open>|r - L/2| / |r|\<close> with \<open>r = L tan(M_PI/2 - \<phi>)\<close>
  for the steer angle \<open>\<phi>\<close> as measured, while the steer angle handed to the same call is
  \<open>\<phi>\<close> times \<^verbatim>\<open>steer_pos_multiplier_\<close>: the multiplier does not enter the gain.
\<close>

theorem odometry_gain_raw_angle:
  assumes "\<not> open_loop s"
  shows "odometry (update P (Val wheel_pos) (Val steer_pos) time period s) =
           Odometry_update P wheel_pos (steer_pos * steer_pos_multiplier s) time
             (let r = wheel_separation_l s * tan (M_PI P / 2 - steer_pos)
              in \<bar>r - wheel_separation_l s / 2\<bar> / \<bar>r\<bar>)
             (odometry s)"
  using assms by (simp add: update_def compute_odometry_def odometry_gain_def Let_def)

theorem odometry_gain_raw_angle_witness:
  "\<not> open_loop ((test_controller 1 1 zero_cmd)\<lparr>steer_pos_multiplier := 2\<rparr>) \<and>
   odometry
     (update (recording_platform pi) (Val 7) (Val (pi / 4)) 3 (1 / 100)
        ((test_controller 1 1 zero_cmd)\<lparr>steer_pos_multiplier := 2\<rparr>)) =
     [[7, pi / 2, 3, 1 / 2]]"
proof -
  let ?s = "(test_controller 1 1 zero_cmd)\<lparr>steer_pos_multiplier := 2\<rparr>"
  have a: "\<not> open_loop ?s"
    by (simp add: test_defs)
  show ?thesis
    using a odometry_gain_raw_angle [OF a, of "recording_platform pi" 7 "pi / 4" 3 "1 / 100"]
    by (simp add: test_defs tan_45)
qed

end
